theory Spec2Isabelle
  imports Main
begin

section \<open>JavaScript values used by the proxy\<close>

text \<open>
  A JavaScript string is a sequence of UTF-16 code units; each code unit is modelled by
  its number. \<open>js\<close> turns an ASCII literal of the source into such a string.
\<close>

type_synonym jsstring = "nat list"
type_synonym bytes = "nat list"

definition js :: "string \<Rightarrow> jsstring" where
  "js s = map of_char s"

text \<open>
  What \<open>String.prototype.trim\<close> strips: the WhiteSpace and LineTerminator code points of
  ECMAScript (TAB, LF, VT, FF, CR, SP, NBSP, the Unicode space separators, LS, PS and
  the byte order mark).
\<close>

definition isWhiteSpace :: "nat \<Rightarrow> bool" where
  "isWhiteSpace c \<longleftrightarrow>
     c = 9 \<or> c = 10 \<or> c = 11 \<or> c = 12 \<or> c = 13 \<or> c = 32 \<or> c = 160 \<or> c = 5760 \<or>
     (8192 \<le> c \<and> c \<le> 8202) \<or> c = 8232 \<or> c = 8233 \<or> c = 8239 \<or> c = 8287 \<or>
     c = 12288 \<or> c = 65279"

definition trim :: "jsstring \<Rightarrow> jsstring" where
  "trim s = rev (dropWhile isWhiteSpace (rev (dropWhile isWhiteSpace s)))"

text \<open>\<open>Array.prototype.join\<close> on an array of strings.\<close>

fun join :: "jsstring \<Rightarrow> jsstring list \<Rightarrow> jsstring" where
  "join sep [] = []"
| "join sep [x] = x"
| "join sep (x # y # ys) = x @ sep @ join sep (y # ys)"

text \<open>
  Truthiness of an optional string: \<open>undefined\<close> and the empty string are falsy.
\<close>

fun truthy :: "jsstring option \<Rightarrow> bool" where
  "truthy None = False"
| "truthy (Some s) = (s \<noteq> [])"

text \<open>\<open>a || b\<close> on an optional string with a string default.\<close>

definition or_default :: "jsstring option \<Rightarrow> jsstring \<Rightarrow> jsstring" where
  "or_default a b = (if truthy a then the a else b)"

datatype jsvalue =
    JNull
  | JBool bool
  | JNum int
  | JStr jsstring
  | JArr "jsvalue list"
  | JObj "(jsstring \<times> jsvalue) list"

text \<open>
  Thrown values. \<open>SystemError\<close> is what \<open>readFileSync\<close> throws (ENOENT, EACCES, ...),
  \<open>FetchError\<close> what \<open>fetch\<close> rejects with (network failure or the abort of
  \<open>AbortSignal.timeout\<close>).
\<close>

datatype js_error =
    Error jsstring
  | TypeError jsstring
  | SyntaxError jsstring
  | SystemError jsstring
  | FetchError jsstring

section \<open>Observable effects\<close>

text \<open>
  One constructor per \<open>log(...)\<close> call site of the sources modelled here;
  \<open>render\<close> gives the text the call prints.
\<close>

datatype log_msg =
    LoadedCert jsstring
  | ErrorLoadingCert js_error
  | LoadedKey jsstring
  | ErrorLoadingKey js_error
  | LoadedCA jsstring
  | ErrorLoadingCA js_error
  | VerificationDisabledWarning
  | PleaseAuthorize jsstring
  | BrowserOpened
  | CouldNotOpenBrowser
  | CompletedByAnotherInstance

fun error_text :: "js_error \<Rightarrow> jsstring" where
  "error_text (Error m) = js ''Error: '' @ m"
| "error_text (TypeError m) = js ''TypeError: '' @ m"
| "error_text (SyntaxError m) = js ''SyntaxError: '' @ m"
| "error_text (SystemError m) = js ''Error: '' @ m"
| "error_text (FetchError m) = js ''TypeError: '' @ m"

fun render :: "log_msg \<Rightarrow> jsstring" where
  "render (LoadedCert p) = js ''Loaded TLS client certificate from: '' @ p"
| "render (ErrorLoadingCert e) = js ''Error loading TLS client certificate: '' @ error_text e"
| "render (LoadedKey p) = js ''Loaded TLS client key from: '' @ p"
| "render (ErrorLoadingKey e) = js ''Error loading TLS client key: '' @ error_text e"
| "render (LoadedCA p) = js ''Loaded TLS CA certificate from: '' @ p"
| "render (ErrorLoadingCA e) = js ''Error loading TLS CA certificate: '' @ error_text e"
| "render VerificationDisabledWarning =
     js ''WARNING: TLS certificate verification disabled (rejectUnauthorized: false)''"
| "render (PleaseAuthorize u) =
     [10] @ js ''Please authorize this client by visiting:'' @ [10] @ u @ [10]"
| "render BrowserOpened = js ''Browser opened automatically.''"
| "render CouldNotOpenBrowser =
     js ''Could not open browser automatically. Please copy and paste the URL above into your browser.''"
| "render CompletedByAnotherInstance =
     js ''Authentication was completed by another instance - will use tokens from disk''"

section \<open>TLS client certificate configuration (types.ts)\<close>

record TLSClientCertConfig =
  cert :: "jsstring option"
  key :: "jsstring option"
  ca :: "jsstring option"
  passphrase :: "jsstring option"
  rejectUnauthorized :: "bool option"

text \<open>
  The \<open>connect\<close> options handed to \<open>new Agent\<close>. A field is \<open>None\<close> when the property
  was never set on \<open>tlsOptions\<close>. The agent is identified with its options.
\<close>

record Agent =
  connect_cert :: "bytes option"
  connect_key :: "bytes option"
  connect_ca :: "bytes option"
  connect_passphrase :: "jsstring option"
  connect_rejectUnauthorized :: "bool option"

text \<open>
  The trace of a run: \<open>debugLog\<close> calls (by their message literal), \<open>log\<close> calls,
  \<open>readFileSync\<close> calls (by path), \<open>new Agent\<close>, the \<open>open\<close> call, a \<open>fetch\<close> call
  and a timer wait in milliseconds.
\<close>

datatype event =
    Debug string
  | Log log_msg
  | ReadFile jsstring
  | NewAgent Agent
  | Open jsstring
  | Fetch jsstring
  | Sleep nat

text \<open>\<open>readFileSync\<close>: the file's content, or the error it throws.\<close>

type_synonym filesystem = "jsstring \<Rightarrow> js_error + bytes"

section \<open>NodeOAuthClientProvider.createTLSAgent (node-oauth-client-provider.ts)\<close>

text \<open>
  Each of the three loading blocks returns its events and either the error it rethrows
  or the value of the option (\<open>None\<close> when the field is falsy and the block is skipped).
\<close>

definition load_cert :: "filesystem \<Rightarrow> TLSClientCertConfig \<Rightarrow> event list \<times> (js_error + bytes option)" where
  "load_cert fs c =
     (if truthy (cert c) then
        (case fs (the (cert c)) of
           Inr b \<Rightarrow> ([Debug ''Loading TLS client certificate'', ReadFile (the (cert c)),
                      Log (LoadedCert (the (cert c)))], Inr (Some b))
         | Inl e \<Rightarrow> ([Debug ''Loading TLS client certificate'', ReadFile (the (cert c)),
                      Log (ErrorLoadingCert e)], Inl e))
      else ([], Inr None))"

definition load_key :: "filesystem \<Rightarrow> TLSClientCertConfig \<Rightarrow> event list \<times> (js_error + bytes option)" where
  "load_key fs c =
     (if truthy (key c) then
        (case fs (the (key c)) of
           Inr b \<Rightarrow> ([Debug ''Loading TLS client key'', ReadFile (the (key c)),
                      Log (LoadedKey (the (key c)))], Inr (Some b))
         | Inl e \<Rightarrow> ([Debug ''Loading TLS client key'', ReadFile (the (key c)),
                      Log (ErrorLoadingKey e)], Inl e))
      else ([], Inr None))"

definition load_ca :: "filesystem \<Rightarrow> TLSClientCertConfig \<Rightarrow> event list \<times> (js_error + bytes option)" where
  "load_ca fs c =
     (if truthy (ca c) then
        (case fs (the (ca c)) of
           Inr b \<Rightarrow> ([Debug ''Loading TLS CA certificate'', ReadFile (the (ca c)),
                      Log (LoadedCA (the (ca c)))], Inr (Some b))
         | Inl e \<Rightarrow> ([Debug ''Loading TLS CA certificate'', ReadFile (the (ca c)),
                      Log (ErrorLoadingCA e)], Inl e))
      else ([], Inr None))"

definition set_passphrase :: "TLSClientCertConfig \<Rightarrow> event list \<times> jsstring option" where
  "set_passphrase c =
     (if truthy (passphrase c)
      then ([Debug ''Using passphrase for encrypted private key''], passphrase c)
      else ([], None))"

definition set_rejectUnauthorized :: "TLSClientCertConfig \<Rightarrow> event list \<times> bool option" where
  "set_rejectUnauthorized c =
     (case rejectUnauthorized c of
        None \<Rightarrow> ([], None)
      | Some r \<Rightarrow>
          ((if \<not> r then [Log VerificationDisabledWarning] else [])
             @ [Debug ''TLS rejectUnauthorized setting''], Some r))"

definition createTLSAgent ::
  "filesystem \<Rightarrow> TLSClientCertConfig option \<Rightarrow> event list \<times> (js_error + Agent)" where
  "createTLSAgent fs tlsClientCert =
     (case tlsClientCert of
        None \<Rightarrow> ([], Inl (Error (js ''TLS client cert config is required'')))
      | Some c \<Rightarrow>
         (case load_cert fs c of
            (ev1, Inl e) \<Rightarrow> (ev1, Inl e)
          | (ev1, Inr crt) \<Rightarrow>
         (case load_key fs c of
            (ev2, Inl e) \<Rightarrow> (ev1 @ ev2, Inl e)
          | (ev2, Inr ky) \<Rightarrow>
         (case load_ca fs c of
            (ev3, Inl e) \<Rightarrow> (ev1 @ ev2 @ ev3, Inl e)
          | (ev3, Inr cacert) \<Rightarrow>
         (case set_passphrase c of (ev4, pw) \<Rightarrow>
         (case set_rejectUnauthorized c of (ev5, ru) \<Rightarrow>
            (let agent = \<lparr> connect_cert = crt, connect_key = ky, connect_ca = cacert,
                            connect_passphrase = pw, connect_rejectUnauthorized = ru \<rparr>
             in (ev1 @ ev2 @ ev3 @ ev4 @ ev5 @
                   [Debug ''Creating undici Agent with TLS options'', NewAgent agent],
                 Inr agent))))))))"

section \<open>Authorization server metadata (authorization-server-metadata.ts)\<close>

record AuthorizationServerMetadata =
  issuer :: "jsstring option"
  scopes_supported :: "jsstring list option"

subsection \<open>The platform: \<open>new URL\<close> and \<open>fetch\<close>\<close>

text \<open>
  \<open>new URL(s)\<close> without a base throws a TypeError when \<open>s\<close> has no scheme. That part
  of the URL parser is written out: leading and trailing C0 controls and spaces are
  stripped, ASCII tab and newline are removed, and the rest must start with an ASCII
  letter followed by letters, digits, \<open>+\<close>, \<open>-\<close> or \<open>.\<close> up to a colon. What the
  parser does with an input that has a scheme is a parameter (\<open>url_rest\<close>).
\<close>

record URL =
  origin :: jsstring

definition isC0ControlOrSpace :: "nat \<Rightarrow> bool" where
  "isC0ControlOrSpace c \<longleftrightarrow> c \<le> 32"

definition isTabOrNewline :: "nat \<Rightarrow> bool" where
  "isTabOrNewline c \<longleftrightarrow> c = 9 \<or> c = 10 \<or> c = 13"

definition isAsciiAlpha :: "nat \<Rightarrow> bool" where
  "isAsciiAlpha c \<longleftrightarrow> (65 \<le> c \<and> c \<le> 90) \<or> (97 \<le> c \<and> c \<le> 122)"

definition isAsciiDigit :: "nat \<Rightarrow> bool" where
  "isAsciiDigit c \<longleftrightarrow> 48 \<le> c \<and> c \<le> 57"

definition url_input :: "jsstring \<Rightarrow> jsstring" where
  "url_input s =
     filter (\<lambda>c. \<not> isTabOrNewline c)
       (rev (dropWhile isC0ControlOrSpace (rev (dropWhile isC0ControlOrSpace s))))"

fun scheme_state :: "jsstring \<Rightarrow> bool" where
  "scheme_state [] = False"
| "scheme_state (c # cs) =
     (if c = 58 then True
      else if isAsciiAlpha c \<or> isAsciiDigit c \<or> c = 43 \<or> c = 45 \<or> c = 46 then scheme_state cs
      else False)"

definition has_scheme :: "jsstring \<Rightarrow> bool" where
  "has_scheme s = (case url_input s of [] \<Rightarrow> False | c # cs \<Rightarrow> isAsciiAlpha c \<and> scheme_state cs)"

text \<open>
  The body of a response as \<open>response.json()\<close> delivers it: a rejection (not JSON), the
  JSON value \<open>null\<close>, or a value that the source casts to \<open>AuthorizationServerMetadata\<close>.
\<close>

datatype json_body =
    BodyError js_error
  | BodyNull
  | BodyValue AuthorizationServerMetadata

record response =
  ok :: bool
  status :: nat
  statusText :: jsstring
  body :: json_body

datatype fetch_result =
    Rejected js_error
  | Response response

text \<open>
  The authorization URL handed to \<open>redirectToAuthorization\<close>: what precedes the query,
  and the query's name/value pairs.
\<close>

record auth_url =
  url_base :: jsstring
  searchParams :: "(jsstring \<times> jsstring) list"

text \<open>
  \<open>URLSearchParams.set\<close>: the first pair of that name takes the value and the later ones
  are removed; without such a pair, one is appended.
\<close>

fun searchParams_set :: "jsstring \<Rightarrow> jsstring \<Rightarrow> (jsstring \<times> jsstring) list \<Rightarrow> (jsstring \<times> jsstring) list" where
  "searchParams_set k v [] = [(k, v)]"
| "searchParams_set k v ((k', v') # ps) =
     (if k' = k then (k, v) # filter (\<lambda>(n, _). n \<noteq> k) ps
      else (k', v') # searchParams_set k v ps)"

text \<open>
  What the process runs on: the file system, the rest of the URL parser, \<open>fetch\<close> (by URL
  and dispatcher), the serialisation of a URL, \<open>sanitizeUrl\<close> of strict-url-sanitise and
  \<open>open\<close> (\<open>None\<close> when the browser was launched, the error otherwise).
\<close>

record env =
  readFileSync :: filesystem
  url_rest :: "jsstring \<Rightarrow> js_error + URL"
  fetch :: "jsstring \<Rightarrow> Agent option \<Rightarrow> fetch_result"
  url_toString :: "auth_url \<Rightarrow> jsstring"
  sanitizeUrl :: "jsstring \<Rightarrow> js_error + jsstring"
  open_browser :: "jsstring \<Rightarrow> js_error option"

definition new_URL :: "env \<Rightarrow> jsstring \<Rightarrow> js_error + URL" where
  "new_URL w s = (if has_scheme s then url_rest w s else Inl (TypeError (js ''Invalid URL'')))"

subsection \<open>getMetadataUrl and fetchAuthorizationServerMetadata\<close>

definition getMetadataUrl :: "env \<Rightarrow> jsstring \<Rightarrow> js_error + jsstring" where
  "getMetadataUrl w serverUrl =
     (case new_URL w serverUrl of
        Inl e \<Rightarrow> Inl e
      | Inr url \<Rightarrow> Inr (origin url @ js ''/.well-known/oauth-authorization-server''))"

text \<open>
  The \<open>try\<close> block of \<open>fetchAuthorizationServerMetadata\<close>: it runs from the \<open>fetch\<close> call to
  \<open>return metadata\<close>. \<open>Inl\<close> is what it throws; reading \<open>metadata.issuer\<close> of \<open>null\<close> for
  the debug message is a TypeError.
\<close>

definition fetch_try :: "env \<Rightarrow> jsstring \<Rightarrow> Agent option \<Rightarrow> event list \<times> (js_error + AuthorizationServerMetadata option)" where
  "fetch_try w metadataUrl customAgent =
     (case fetch w metadataUrl customAgent of
        Rejected e \<Rightarrow> ([Fetch metadataUrl], Inl e)
      | Response r \<Rightarrow>
          (if \<not> ok r then
             (if status r = 404
              then ([Fetch metadataUrl,
                     Debug ''Authorization server metadata endpoint not found (404)''], Inr None)
              else ([Fetch metadataUrl,
                     Debug ''Failed to fetch authorization server metadata''], Inr None))
           else
             (case body r of
                BodyError e \<Rightarrow> ([Fetch metadataUrl], Inl e)
              | BodyNull \<Rightarrow>
                  ([Fetch metadataUrl],
                   Inl (TypeError (js ''Cannot read properties of null'')))
              | BodyValue m \<Rightarrow>
                  ([Fetch metadataUrl,
                    Debug ''Successfully fetched authorization server metadata''], Inr (Some m)))))"

definition fetchAuthorizationServerMetadata ::
  "env \<Rightarrow> jsstring \<Rightarrow> Agent option \<Rightarrow> event list \<times> (js_error + AuthorizationServerMetadata option)" where
  "fetchAuthorizationServerMetadata w serverUrl customAgent =
     (case getMetadataUrl w serverUrl of
        Inl e \<Rightarrow> ([], Inl e)
      | Inr metadataUrl \<Rightarrow>
          (case fetch_try w metadataUrl customAgent of
             (ev, Inl e) \<Rightarrow>
               (Debug ''Fetching authorization server metadata'' # ev
                  @ [Debug ''Error fetching authorization server metadata''], Inr None)
           | (ev, Inr r) \<Rightarrow> (Debug ''Fetching authorization server metadata'' # ev, Inr r)))"

text \<open>
  What a response delivers as metadata: the parsed body of an ok response, when it
  parsed and is not \<open>null\<close>; nothing for a rejected fetch, a status that is not ok, or
  a body that does not parse.
\<close>

definition delivered :: "fetch_result \<Rightarrow> AuthorizationServerMetadata option" where
  "delivered f =
     (case f of
        Rejected e \<Rightarrow> None
      | Response r \<Rightarrow>
          (if ok r then (case body r of BodyValue m \<Rightarrow> Some m | _ \<Rightarrow> None) else None))"

section \<open>The provider's data (types.ts, the SDK's auth types)\<close>

text \<open>
  \<open>OAuthClientMetadata\<close>: the \<open>scope\<close> property, and every other own property of the
  object (what the spread in \<open>clientMetadata\<close> copies besides \<open>scope\<close>).
\<close>

record OAuthClientMetadata =
  md_scope :: "jsstring option"
  md_props :: "jsstring \<rightharpoonup> jsvalue"

record OAuthClientInformationFull =
  client_id :: jsstring
  info_scope :: "jsstring option"

record OAuthTokens =
  access_token :: jsstring
  refresh_token :: "jsstring option"
  expires_in :: "int option"

record OAuthProviderOptions =
  opt_serverUrl :: jsstring
  opt_callbackPort :: nat
  opt_host :: jsstring
  opt_callbackPath :: "jsstring option"
  opt_configDir :: "jsstring option"
  opt_clientName :: "jsstring option"
  opt_clientUri :: "jsstring option"
  opt_softwareId :: "jsstring option"
  opt_softwareVersion :: "jsstring option"
  opt_staticOAuthClientMetadata :: "OAuthClientMetadata option"
  opt_staticOAuthClientInfo :: "OAuthClientInformationFull option"
  opt_authorizeResource :: "jsstring option"
  opt_serverUrlHash :: jsstring
  opt_authorizationServerMetadata :: "AuthorizationServerMetadata option"
  opt_tlsClientCert :: "TLSClientCertConfig option"

text \<open>The fields of the class; \<open>priv_state\<close> and \<open>priv_clientInfo\<close> are \<open>_state\<close> and \<open>_clientInfo\<close>.\<close>

record NodeOAuthClientProvider =
  options :: OAuthProviderOptions
  serverUrlHash :: jsstring
  callbackPath :: jsstring
  clientName :: jsstring
  clientUri :: jsstring
  softwareId :: jsstring
  softwareVersion :: jsstring
  staticOAuthClientMetadata :: "OAuthClientMetadata option"
  staticOAuthClientInfo :: "OAuthClientInformationFull option"
  authorizeResource :: "jsstring option"
  priv_state :: jsstring
  priv_clientInfo :: "OAuthClientInformationFull option"
  authorizationServerMetadata :: "AuthorizationServerMetadata option"
  tlsClientCert :: "TLSClientCertConfig option"
  customAgent :: "Agent option"

text \<open>
  The credential files of one server hash, as mcp-auth-config reads and writes them:
  \<open>client_info.json\<close>, \<open>tokens.json\<close> and \<open>code_verifier.txt\<close>.
\<close>

record cred_files =
  client_info_json :: "OAuthClientInformationFull option"
  tokens_json :: "OAuthTokens option"
  code_verifier_txt :: "jsstring option"

type_synonym cred_store = "jsstring \<Rightarrow> cred_files"

section \<open>NodeOAuthClientProvider: constructor and accessors\<close>

text \<open>
  The constructor. \<open>uuid\<close> is the value of \<open>randomUUID()\<close> and \<open>version\<close> the constant
  \<open>MCP_REMOTE_VERSION\<close> of utils.ts. An error thrown by \<open>createTLSAgent\<close> leaves the
  constructor, so no provider exists then.
\<close>

definition new_NodeOAuthClientProvider ::
  "env \<Rightarrow> jsstring \<Rightarrow> jsstring \<Rightarrow> OAuthProviderOptions \<Rightarrow> event list \<times> (js_error + NodeOAuthClientProvider)" where
  "new_NodeOAuthClientProvider w uuid version opts =
     (let this = \<lparr> options = opts,
                   serverUrlHash = opt_serverUrlHash opts,
                   callbackPath = or_default (opt_callbackPath opts) (js ''/oauth/callback''),
                   clientName = or_default (opt_clientName opts) (js ''MCP CLI Client''),
                   clientUri = or_default (opt_clientUri opts)
                                 (js ''https://github.com/modelcontextprotocol/mcp-cli''),
                   softwareId = or_default (opt_softwareId opts)
                                  (js ''2e6dc280-f3c3-4e01-99a7-8181dbd1d23d''),
                   softwareVersion = or_default (opt_softwareVersion opts) version,
                   staticOAuthClientMetadata = opt_staticOAuthClientMetadata opts,
                   staticOAuthClientInfo = opt_staticOAuthClientInfo opts,
                   authorizeResource = opt_authorizeResource opts,
                   priv_state = uuid,
                   priv_clientInfo = None,
                   authorizationServerMetadata = opt_authorizationServerMetadata opts,
                   tlsClientCert = opt_tlsClientCert opts,
                   customAgent = None \<rparr>
      in (case tlsClientCert this of
            None \<Rightarrow> ([], Inr this)
          | Some c \<Rightarrow>
              (case createTLSAgent (readFileSync w) (tlsClientCert this) of
                 (ev, Inl e) \<Rightarrow>
                   (Debug ''Creating custom TLS agent with client certificate'' # ev, Inl e)
               | (ev, Inr agent) \<Rightarrow>
                   (Debug ''Creating custom TLS agent with client certificate'' # ev,
                    Inr (this\<lparr>customAgent := Some agent\<rparr>)))))"

text \<open>Decimal digits of a number, for the port in \<open>redirectUrl\<close>.\<close>

fun decimal :: "nat \<Rightarrow> jsstring" where
  "decimal n = (if n < 10 then [48 + n] else decimal (n div 10) @ [48 + n mod 10])"

declare decimal.simps [simp del]

definition redirectUrl :: "NodeOAuthClientProvider \<Rightarrow> jsstring" where
  "redirectUrl this =
     js ''http://'' @ opt_host (options this) @ js '':''
       @ decimal (opt_callbackPort (options this)) @ callbackPath this"

definition getCustomAgent :: "NodeOAuthClientProvider \<Rightarrow> Agent option" where
  "getCustomAgent this = customAgent this"

section \<open>NodeOAuthClientProvider.getEffectiveScope and clientMetadata\<close>

text \<open>\<open>x?.scope && x.scope.trim().length > 0\<close> on an optional string.\<close>

definition scope_present :: "jsstring option \<Rightarrow> bool" where
  "scope_present sc = (truthy sc \<and> length (trim (the sc)) > 0)"

definition getEffectiveScope :: "NodeOAuthClientProvider \<Rightarrow> jsstring" where
  "getEffectiveScope this =
     (if (case staticOAuthClientMetadata this of None \<Rightarrow> False
          | Some md \<Rightarrow> scope_present (md_scope md))
      then the (md_scope (the (staticOAuthClientMetadata this)))
      else if (case priv_clientInfo this of None \<Rightarrow> False
               | Some ci \<Rightarrow> scope_present (info_scope ci))
      then the (info_scope (the (priv_clientInfo this)))
      else if (case authorizationServerMetadata this of None \<Rightarrow> False
               | Some m \<Rightarrow> (case scopes_supported m of None \<Rightarrow> False
                            | Some ss \<Rightarrow> length ss \<noteq> 0))
      then join (js '' '')
             (the (scopes_supported (the (authorizationServerMetadata this))))
      else js ''openid email profile'')"

text \<open>
  The object literal of \<open>clientMetadata\<close>, as a map from property names: the eight
  defaults, overridden by the own properties of \<open>staticOAuthClientMetadata\<close> (the
  spread), overridden by \<open>scope: effectiveScope\<close>.
\<close>

definition spread :: "OAuthClientMetadata option \<Rightarrow> (jsstring \<rightharpoonup> jsvalue)" where
  "spread md =
     (case md of
        None \<Rightarrow> Map.empty
      | Some m \<Rightarrow>
          (case md_scope m of
             None \<Rightarrow> md_props m
           | Some s \<Rightarrow> (md_props m)(js ''scope'' \<mapsto> JStr s)))"

definition clientMetadata :: "NodeOAuthClientProvider \<Rightarrow> (jsstring \<rightharpoonup> jsvalue)" where
  "clientMetadata this =
     (let effectiveScope = getEffectiveScope this in
      ([js ''redirect_uris'' \<mapsto> JArr [JStr (redirectUrl this)],
        js ''token_endpoint_auth_method'' \<mapsto> JStr (js ''none''),
        js ''grant_types'' \<mapsto> JArr [JStr (js ''authorization_code''), JStr (js ''refresh_token'')],
        js ''response_types'' \<mapsto> JArr [JStr (js ''code'')],
        js ''client_name'' \<mapsto> JStr (clientName this),
        js ''client_uri'' \<mapsto> JStr (clientUri this),
        js ''software_id'' \<mapsto> JStr (softwareId this),
        js ''software_version'' \<mapsto> JStr (softwareVersion this)]
         ++ spread (staticOAuthClientMetadata this))
        (js ''scope'' \<mapsto> JStr effectiveScope))"

section \<open>NodeOAuthClientProvider: the methods that read or write state\<close>

definition getAuthorizationServerMetadata ::
  "env \<Rightarrow> NodeOAuthClientProvider \<Rightarrow>
     event list \<times> NodeOAuthClientProvider \<times> (js_error + AuthorizationServerMetadata option)" where
  "getAuthorizationServerMetadata w this =
     (case authorizationServerMetadata this of
        Some m \<Rightarrow> ([Debug ''authorizationServerMetadata: ''], this, Inr (Some m))
      | None \<Rightarrow>
          (case fetchAuthorizationServerMetadata w (opt_serverUrl (options this)) (customAgent this) of
             (ev, Inl e) \<Rightarrow>
               (Debug ''authorizationServerMetadata: '' # ev
                  @ [Debug ''Failed to fetch authorization server metadata''], this, Inr None)
           | (ev, Inr r) \<Rightarrow>
               (Debug ''authorizationServerMetadata: '' # ev
                  @ (case r of None \<Rightarrow> []
                     | Some m \<Rightarrow> (case scopes_supported m of None \<Rightarrow> []
                                  | Some ss \<Rightarrow> [Debug ''Authorization server supports scopes''])),
                this\<lparr>authorizationServerMetadata := r\<rparr>, Inr r)))"

definition clientInformation ::
  "cred_store \<Rightarrow> NodeOAuthClientProvider \<Rightarrow>
     event list \<times> NodeOAuthClientProvider \<times> OAuthClientInformationFull option" where
  "clientInformation st this =
     (case staticOAuthClientInfo this of
        Some si \<Rightarrow>
          ([Debug ''Reading client info'', Debug ''Returning static client info''],
           this\<lparr>priv_clientInfo := Some si\<rparr>, Some si)
      | None \<Rightarrow>
          (case client_info_json (st (serverUrlHash this)) of
             Some ci \<Rightarrow>
               ([Debug ''Reading client info'', Debug ''Client info result:''],
                this\<lparr>priv_clientInfo := Some ci\<rparr>, Some ci)
           | None \<Rightarrow>
               ([Debug ''Reading client info'', Debug ''Client info result:''], this, None)))"

definition saveClientInformation ::
  "cred_store \<Rightarrow> NodeOAuthClientProvider \<Rightarrow> OAuthClientInformationFull \<Rightarrow>
     event list \<times> NodeOAuthClientProvider \<times> cred_store" where
  "saveClientInformation st this ci =
     ([Debug ''Saving client info''],
      this\<lparr>priv_clientInfo := Some ci\<rparr>,
      st(serverUrlHash this := (st (serverUrlHash this))\<lparr>client_info_json := Some ci\<rparr>))"

text \<open>\<open>typeof tokens.expires_in !== 'number' || tokens.expires_in < 0\<close>\<close>

definition invalid_expires_in :: "OAuthTokens \<Rightarrow> bool" where
  "invalid_expires_in t = (case expires_in t of None \<Rightarrow> True | Some n \<Rightarrow> n < 0)"

definition tokens :: "cred_store \<Rightarrow> NodeOAuthClientProvider \<Rightarrow> event list \<times> OAuthTokens option" where
  "tokens st this =
     (case tokens_json (st (serverUrlHash this)) of
        Some t \<Rightarrow>
          ([Debug ''Reading OAuth tokens'', Debug ''Token request stack trace:'']
             @ (if invalid_expires_in t
                then [Debug ''WARNING: Invalid expires_in detected while reading tokens''] else [])
             @ [Debug ''Token result:''], Some t)
      | None \<Rightarrow>
          ([Debug ''Reading OAuth tokens'', Debug ''Token request stack trace:'',
            Debug ''Token result: Not found''], None))"

definition saveTokens ::
  "cred_store \<Rightarrow> NodeOAuthClientProvider \<Rightarrow> OAuthTokens \<Rightarrow> event list \<times> cred_store" where
  "saveTokens st this t =
     ((if invalid_expires_in t
       then [Debug ''WARNING: Invalid expires_in detected in tokens''] else [])
        @ [Debug ''Saving tokens''],
      st(serverUrlHash this := (st (serverUrlHash this))\<lparr>tokens_json := Some t\<rparr>))"

definition saveCodeVerifier ::
  "cred_store \<Rightarrow> NodeOAuthClientProvider \<Rightarrow> jsstring \<Rightarrow> event list \<times> cred_store" where
  "saveCodeVerifier st this v =
     ([Debug ''Saving code verifier''],
      st(serverUrlHash this := (st (serverUrlHash this))\<lparr>code_verifier_txt := Some v\<rparr>))"

definition codeVerifier ::
  "cred_store \<Rightarrow> NodeOAuthClientProvider \<Rightarrow> event list \<times> (js_error + jsstring)" where
  "codeVerifier st this =
     (case code_verifier_txt (st (serverUrlHash this)) of
        None \<Rightarrow> ([Debug ''Reading code verifier''],
                  Inl (Error (js ''No code verifier saved for session'')))
      | Some v \<Rightarrow> ([Debug ''Reading code verifier'', Debug ''Code verifier found:''], Inr v))"

datatype credential_scope = ScopeAll | ScopeClient | ScopeTokens | ScopeVerifier

fun invalidateCredentials ::
  "cred_store \<Rightarrow> NodeOAuthClientProvider \<Rightarrow> credential_scope \<Rightarrow>
     event list \<times> NodeOAuthClientProvider \<times> cred_store" where
  "invalidateCredentials st this ScopeAll =
     ([Debug ''Invalidating credentials: '', Debug ''All credentials invalidated''],
      this\<lparr>priv_clientInfo := None\<rparr>,
      st(serverUrlHash this :=
           \<lparr>client_info_json = None, tokens_json = None, code_verifier_txt = None\<rparr>))"
| "invalidateCredentials st this ScopeClient =
     ([Debug ''Invalidating credentials: '', Debug ''Client information invalidated''],
      this\<lparr>priv_clientInfo := None\<rparr>,
      st(serverUrlHash this := (st (serverUrlHash this))\<lparr>client_info_json := None\<rparr>))"
| "invalidateCredentials st this ScopeTokens =
     ([Debug ''Invalidating credentials: '', Debug ''OAuth tokens invalidated''],
      this,
      st(serverUrlHash this := (st (serverUrlHash this))\<lparr>tokens_json := None\<rparr>))"
| "invalidateCredentials st this ScopeVerifier =
     ([Debug ''Invalidating credentials: '', Debug ''Code verifier invalidated''],
      this,
      st(serverUrlHash this := (st (serverUrlHash this))\<lparr>code_verifier_txt := None\<rparr>))"

section \<open>NodeOAuthClientProvider.redirectToAuthorization\<close>

text \<open>
  The call of \<open>getAuthorizationServerMetadata\<close> is not awaited: it runs up to its first
  \<open>await\<close> (the \<open>fetch\<close>), and its continuation runs no earlier than the first \<open>await\<close>
  of \<open>redirectToAuthorization\<close>, which is the \<open>open\<close> call. \<open>until_await\<close> cuts its
  trace there; the continuation is placed at the end of the trace.
\<close>

fun until_await :: "event list \<Rightarrow> event list \<times> event list" where
  "until_await [] = ([], [])"
| "until_await (Fetch u # es) = ([Fetch u], es)"
| "until_await (e # es) = (case until_await es of (a, b) \<Rightarrow> (e # a, b))"

text \<open>
  The \<open>try\<close> block: \<open>sanitizeUrl\<close>, then \<open>open\<close>, then the success message. \<open>Inl\<close> is
  what the block throws.
\<close>

definition open_try :: "env \<Rightarrow> jsstring \<Rightarrow> event list \<times> (js_error + unit)" where
  "open_try w u =
     (case sanitizeUrl w u of
        Inl e \<Rightarrow> ([], Inl e)
      | Inr u' \<Rightarrow>
          (case open_browser w u' of
             Some e \<Rightarrow> ([Open u'], Inl e)
           | None \<Rightarrow> ([Open u', Log BrowserOpened], Inr ())))"

definition redirectToAuthorization ::
  "env \<Rightarrow> NodeOAuthClientProvider \<Rightarrow> auth_url \<Rightarrow>
     event list \<times> NodeOAuthClientProvider \<times> auth_url \<times> (js_error + unit)" where
  "redirectToAuthorization w this authorizationUrl =
     (case getAuthorizationServerMetadata w this of (bg, this', _) \<Rightarrow>
      (case until_await bg of (bg_now, bg_later) \<Rightarrow>
      (let url1 = (if truthy (authorizeResource this)
                   then authorizationUrl\<lparr>searchParams :=
                          searchParams_set (js ''resource'') (the (authorizeResource this))
                            (searchParams authorizationUrl)\<rparr>
                   else authorizationUrl);
           effectiveScope = getEffectiveScope this;
           url2 = url1\<lparr>searchParams :=
                    searchParams_set (js ''scope'') effectiveScope (searchParams url1)\<rparr>;
           ev = bg_now @
                [Debug ''Added scope parameter to authorization URL'',
                 Log (PleaseAuthorize (url_toString w url2)),
                 Debug ''Redirecting to authorization URL'']
       in (case open_try w (url_toString w url2) of
             (ev_open, Inl e) \<Rightarrow>
               (ev @ ev_open @ [Log CouldNotOpenBrowser, Debug ''Failed to open browser'']
                  @ bg_later, this', url2, Inr ())
           | (ev_open, Inr _) \<Rightarrow>
               (ev @ ev_open @ bg_later, this', url2, Inr ())))))"

section \<open>A run of the provider\<close>

text \<open>
  Every member of the class that outside code can call, and the one write that
  \<open>runProxy\<close> makes into the provider (\<open>authProvider.options.authorizationServerMetadata\<close>).
\<close>

datatype call =
    CallRedirectUrl
  | CallClientMetadata
  | CallState
  | CallGetCustomAgent
  | CallGetAuthorizationServerMetadata
  | CallClientInformation
  | CallSaveClientInformation OAuthClientInformationFull
  | CallTokens
  | CallSaveTokens OAuthTokens
  | CallRedirectToAuthorization auth_url
  | CallSaveCodeVerifier jsstring
  | CallCodeVerifier
  | CallInvalidateCredentials credential_scope
  | SetOptionsMetadata "AuthorizationServerMetadata option"

fun step ::
  "env \<Rightarrow> NodeOAuthClientProvider \<times> cred_store \<Rightarrow> call \<Rightarrow>
     event list \<times> NodeOAuthClientProvider \<times> cred_store" where
  "step w (this, st) CallRedirectUrl = ([], this, st)"
| "step w (this, st) CallClientMetadata = ([], this, st)"
| "step w (this, st) CallState = ([], this, st)"
| "step w (this, st) CallGetCustomAgent = ([], this, st)"
| "step w (this, st) CallGetAuthorizationServerMetadata =
     (case getAuthorizationServerMetadata w this of (ev, this', _) \<Rightarrow> (ev, this', st))"
| "step w (this, st) CallClientInformation =
     (case clientInformation st this of (ev, this', _) \<Rightarrow> (ev, this', st))"
| "step w (this, st) (CallSaveClientInformation ci) = saveClientInformation st this ci"
| "step w (this, st) CallTokens = (fst (tokens st this), this, st)"
| "step w (this, st) (CallSaveTokens t) =
     (case saveTokens st this t of (ev, st') \<Rightarrow> (ev, this, st'))"
| "step w (this, st) (CallRedirectToAuthorization u) =
     (case redirectToAuthorization w this u of (ev, this', _, _) \<Rightarrow> (ev, this', st))"
| "step w (this, st) (CallSaveCodeVerifier v) =
     (case saveCodeVerifier st this v of (ev, st') \<Rightarrow> (ev, this, st'))"
| "step w (this, st) CallCodeVerifier = (fst (codeVerifier st this), this, st)"
| "step w (this, st) (CallInvalidateCredentials sc) = invalidateCredentials st this sc"
| "step w (this, st) (SetOptionsMetadata m) =
     ([], this\<lparr>options := (options this)\<lparr>opt_authorizationServerMetadata := m\<rparr>\<rparr>, st)"

text \<open>A sequence of calls, each in the environment of its moment.\<close>

fun run ::
  "NodeOAuthClientProvider \<times> cred_store \<Rightarrow> (env \<times> call) list \<Rightarrow>
     event list \<times> NodeOAuthClientProvider \<times> cred_store" where
  "run (this, st) [] = ([], this, st)"
| "run (this, st) ((w, c) # cs) =
     (case step w (this, st) c of (ev, this', st') \<Rightarrow>
        (case run (this', st') cs of (ev', this'', st'') \<Rightarrow> (ev @ ev', this'', st'')))"

section \<open>runProxy (proxy.ts)\<close>

text \<open>
  \<open>authInitializer\<close>. The argument is what \<open>authCoordinator.initializeAuth()\<close> did: its
  trace and either what it threw or the state it resolved to. The result carries the
  new value of the outer variable \<open>server\<close>.
\<close>

record ('srv, 'w) authState =
  server :: "'srv option"
  waitForAuthCode :: 'w
  skipBrowserAuth :: bool

record 'w authResult =
  res_waitForAuthCode :: 'w
  res_skipBrowserAuth :: bool

definition authInitializer ::
  "event list \<times> (js_error + ('srv, 'w) authState) \<Rightarrow> 'srv option \<Rightarrow>
     event list \<times> 'srv option \<times> (js_error + 'w authResult)" where
  "authInitializer init server0 =
     (case init of
        (ev, Inl e) \<Rightarrow> (ev, server0, Inl e)
      | (ev, Inr authState) \<Rightarrow>
          (ev @ (if skipBrowserAuth authState
                 then [Log CompletedByAnotherInstance, Sleep 1000] else []),
           server authState,
           Inr \<lparr> res_waitForAuthCode = waitForAuthCode authState,
                 res_skipBrowserAuth = skipBrowserAuth authState \<rparr>))"

section \<open>Observations on traces\<close>

fun files_read :: "event list \<Rightarrow> jsstring list" where
  "files_read [] = []"
| "files_read (ReadFile p # es) = p # files_read es"
| "files_read (e # es) = files_read es"

fun agents_built :: "event list \<Rightarrow> Agent list" where
  "agents_built [] = []"
| "agents_built (NewAgent a # es) = a # agents_built es"
| "agents_built (e # es) = agents_built es"

fun warnings :: "event list \<Rightarrow> nat" where
  "warnings [] = 0"
| "warnings (Log VerificationDisabledWarning # es) = Suc (warnings es)"
| "warnings (e # es) = warnings es"

fun waited :: "event list \<Rightarrow> nat" where
  "waited [] = 0"
| "waited (Sleep n # es) = n + waited es"
| "waited (e # es) = waited es"


definition quiet :: "event list \<Rightarrow> bool" where
  "quiet ev \<longleftrightarrow> agents_built ev = [] \<and> warnings ev = 0"

text \<open>The paths a configuration refers to, in the order the loader visits them.\<close>

definition referenced_files :: "TLSClientCertConfig \<Rightarrow> jsstring list" where
  "referenced_files c = map the (filter truthy [cert c, key c, ca c])"

text \<open>The content loaded for one path field: nothing when the field is falsy.\<close>

definition loaded :: "filesystem \<Rightarrow> jsstring option \<Rightarrow> bytes option" where
  "loaded fs f =
     (if truthy f then (case fs (the f) of Inr b \<Rightarrow> Some b | Inl e \<Rightarrow> None) else None)"

text \<open>
  Whether a connection made with the agent verifies the server's certificate: Node's
  \<open>tls.connect\<close> takes \<open>rejectUnauthorized\<close> as true unless the option is set.
\<close>

definition verifies_server :: "Agent \<Rightarrow> bool" where
  "verifies_server a = (case connect_rejectUnauthorized a of None \<Rightarrow> True | Some b \<Rightarrow> b)"

section \<open>The scope priority as the specification words it\<close>

text \<open>
  A scope counts when it has a character that is not whitespace. The effective scope is
  the first of: the static metadata's scope when it counts, the registered client's
  scope when it counts, the server's supported scopes joined by single spaces when
  there is at least one; and \<open>openid email profile\<close> when there is none of these.
\<close>

definition non_whitespace :: "jsstring \<Rightarrow> bool" where
  "non_whitespace s = list_ex (\<lambda>c. \<not> isWhiteSpace c) s"

definition counting :: "jsstring option \<Rightarrow> jsstring option" where
  "counting sc = (case sc of None \<Rightarrow> None | Some s \<Rightarrow> if non_whitespace s then Some s else None)"

definition joined :: "jsstring list option \<Rightarrow> jsstring option" where
  "joined ss = (case ss of None \<Rightarrow> None | Some [] \<Rightarrow> None | Some xs \<Rightarrow> Some (join [32] xs))"

definition priority_scope ::
  "jsstring option \<Rightarrow> jsstring option \<Rightarrow> jsstring list option \<Rightarrow> jsstring" where
  "priority_scope static registered supported =
     (case List.map_filter id [counting static, counting registered, joined supported] of
        [] \<Rightarrow> js ''openid email profile''
      | s # _ \<Rightarrow> s)"

text \<open>The three inputs of the priority, read off the provider.\<close>

definition static_scope :: "NodeOAuthClientProvider \<Rightarrow> jsstring option" where
  "static_scope this =
     (case staticOAuthClientMetadata this of None \<Rightarrow> None | Some md \<Rightarrow> md_scope md)"

definition registered_scope :: "NodeOAuthClientProvider \<Rightarrow> jsstring option" where
  "registered_scope this =
     (case priv_clientInfo this of None \<Rightarrow> None | Some ci \<Rightarrow> info_scope ci)"

definition supported_scopes :: "NodeOAuthClientProvider \<Rightarrow> jsstring list option" where
  "supported_scopes this =
     (case authorizationServerMetadata this of None \<Rightarrow> None | Some m \<Rightarrow> scopes_supported m)"

text \<open>The values of one query parameter of a URL.\<close>

definition param_values :: "jsstring \<Rightarrow> auth_url \<Rightarrow> jsstring list" where
  "param_values k u = map snd (filter (\<lambda>(n, _). n = k) (searchParams u))"

section \<open>The coordinator's follower (coordination.ts)\<close>

text \<open>
  Modelled from the spec: \<open>initializeAuth\<close> of coordination.ts is not among the sources;
  this is its follower branch as the specification describes it. The follower starts
  no listener and no browser; it polls the credential store for the token set, bounded
  by \<open>timeout\<close>, and fails with \<open>AuthTimeoutError\<close> on timeout. \<open>token_at t\<close> says whether
  the store holds the token set \<open>t\<close> milliseconds after the start, and \<open>interval\<close> is the
  polling interval. The trace records the time waited.
\<close>

definition AuthTimeoutError :: js_error where
  "AuthTimeoutError = Error (js ''AuthTimeoutError'')"

definition poll_times :: "nat \<Rightarrow> nat \<Rightarrow> nat list" where
  "poll_times interval timeout = map (\<lambda>k. k * interval) [0..<Suc (timeout div interval)]"

definition initializeAuth_follower ::
  "(nat \<Rightarrow> bool) \<Rightarrow> nat \<Rightarrow> nat \<Rightarrow> 'w \<Rightarrow> event list \<times> (js_error + ('srv, 'w) authState)" where
  "initializeAuth_follower token_at interval timeout wait =
     (case List.find token_at (poll_times interval timeout) of
        None \<Rightarrow> ([Sleep timeout], Inl AuthTimeoutError)
      | Some t \<Rightarrow>
          ([Sleep t], Inr \<lparr> server = None, waitForAuthCode = wait, skipBrowserAuth = True \<rparr>))"

section \<open>Transport negotiation (utils.ts)\<close>

text \<open>
  Modelled from the spec: \<open>connectToRemoteServer\<close> of utils.ts is not among the sources;
  this is the negotiation as the specification describes it. \<open>http-first\<close> tries the
  streaming-HTTP transport and falls back once to the event-stream transport on a
  negative signal (a rejection status or a negotiation failure); \<open>sse-first\<close> reverses
  the order; a restricted strategy has no fallback. When the fallback set is exhausted
  the result is \<open>TransportNegotiationError\<close>; any other failure propagates. \<open>remote n k\<close>
  is the remote's answer to the attempt number \<open>n\<close> made with the transport \<open>k\<close>. The
  first component of the result lists the transports tried, in order.
\<close>

datatype transport_kind = StreamableHttp | EventStream

datatype TransportStrategy = HttpFirst | SseFirst | Restricted transport_kind

datatype attempt_result =
    Connected
  | RejectionStatus nat
  | NegotiationFailure
  | Failed js_error

definition TransportNegotiationError :: js_error where
  "TransportNegotiationError = Error (js ''TransportNegotiationError'')"

fun first_transport :: "TransportStrategy \<Rightarrow> transport_kind" where
  "first_transport HttpFirst = StreamableHttp"
| "first_transport SseFirst = EventStream"
| "first_transport (Restricted k) = k"

fun fallback_transport :: "TransportStrategy \<Rightarrow> transport_kind option" where
  "fallback_transport HttpFirst = Some EventStream"
| "fallback_transport SseFirst = Some StreamableHttp"
| "fallback_transport (Restricted k) = None"

fun negative_signal :: "attempt_result \<Rightarrow> bool" where
  "negative_signal (RejectionStatus n) = True"
| "negative_signal NegotiationFailure = True"
| "negative_signal r = False"

definition attempt ::
  "(nat \<Rightarrow> transport_kind \<Rightarrow> attempt_result) \<Rightarrow> nat \<Rightarrow> transport_kind \<Rightarrow>
     js_error + transport_kind" where
  "attempt remote n k =
     (case remote n k of
        Connected \<Rightarrow> Inr k
      | Failed e \<Rightarrow> Inl e
      | _ \<Rightarrow> Inl TransportNegotiationError)"

definition connectToRemoteServer ::
  "(nat \<Rightarrow> transport_kind \<Rightarrow> attempt_result) \<Rightarrow> TransportStrategy \<Rightarrow>
     transport_kind list \<times> (js_error + transport_kind)" where
  "connectToRemoteServer remote strategy =
     (let k = first_transport strategy in
      if negative_signal (remote 0 k) then
        (case fallback_transport strategy of
           None \<Rightarrow> ([k], Inl TransportNegotiationError)
         | Some k' \<Rightarrow> ([k, k'], attempt remote 1 k'))
      else ([k], attempt remote 0 k))"

section \<open>The message relay (utils.ts)\<close>

text \<open>
  Modelled from the spec: \<open>mcpProxy\<close> of utils.ts is not among the sources; this is the
  relay as the specification describes it. A message is opaque but for the routing
  field the filter reads, the name of the tool a request names. A request from the
  local side naming a tool in \<open>ignoredTools\<close> is answered locally with a synthetic
  rejection and not sent on; every other message is forwarded as it is, in both
  directions.
\<close>

record message =
  tool_name :: "jsstring option"
  payload :: jsvalue

datatype arrival = FromLocal message | FromRemote message

datatype delivery = ToRemote message | ToLocal message | RejectLocally message

definition names_ignored :: "jsstring list \<Rightarrow> message \<Rightarrow> bool" where
  "names_ignored ignoredTools m =
     (case tool_name m of None \<Rightarrow> False | Some n \<Rightarrow> n \<in> set ignoredTools)"

fun relay :: "jsstring list \<Rightarrow> arrival \<Rightarrow> delivery" where
  "relay ignoredTools (FromLocal m) =
     (if names_ignored ignoredTools m then RejectLocally m else ToRemote m)"
| "relay ignoredTools (FromRemote m) = ToLocal m"

definition mcpProxy :: "jsstring list \<Rightarrow> arrival list \<Rightarrow> delivery list" where
  "mcpProxy ignoredTools arrivals = map (relay ignoredTools) arrivals"

fun sent_to_remote :: "delivery list \<Rightarrow> message list" where
  "sent_to_remote [] = []"
| "sent_to_remote (ToRemote m # ds) = m # sent_to_remote ds"
| "sent_to_remote (d # ds) = sent_to_remote ds"

fun sent_to_local :: "delivery list \<Rightarrow> message list" where
  "sent_to_local [] = []"
| "sent_to_local (ToLocal m # ds) = m # sent_to_local ds"
| "sent_to_local (d # ds) = sent_to_local ds"

fun rejected_locally :: "delivery list \<Rightarrow> message list" where
  "rejected_locally [] = []"
| "rejected_locally (RejectLocally m # ds) = m # rejected_locally ds"
| "rejected_locally (d # ds) = rejected_locally ds"

fun from_local :: "arrival list \<Rightarrow> message list" where
  "from_local [] = []"
| "from_local (FromLocal m # as) = m # from_local as"
| "from_local (a # as) = from_local as"

fun from_remote :: "arrival list \<Rightarrow> message list" where
  "from_remote [] = []"
| "from_remote (FromRemote m # as) = m # from_remote as"
| "from_remote (a # as) = from_remote as"

section \<open>Concrete inputs\<close>

text \<open>
  A file system with a client certificate and key and nothing else, an environment
  around it, and provider options for \<open>https://example.com/mcp\<close>.
\<close>

definition example_fs :: filesystem where
  "example_fs p =
     (if p = js ''/certs/client.pem'' then Inr [45, 45, 45]
      else if p = js ''/certs/client.key'' then Inr [45, 45]
      else Inl (SystemError (js ''ENOENT: no such file or directory'')))"

definition example_metadata :: AuthorizationServerMetadata where
  "example_metadata =
     \<lparr> issuer = Some (js ''https://example.com''),
       scopes_supported = Some [js ''openid'', js ''email'', js ''custom:read''] \<rparr>"

definition example_env :: env where
  "example_env =
     \<lparr> readFileSync = example_fs,
       url_rest = (\<lambda>s. if s = js ''https://example.com/mcp''
                        then Inr \<lparr> origin = js ''https://example.com'' \<rparr>
                        else Inl (TypeError (js ''Invalid URL''))),
       fetch = (\<lambda>u a. if u = js ''https://example.com/.well-known/oauth-authorization-server''
                       then Response \<lparr> ok = True, status = 200, statusText = js ''OK'',
                                        body = BodyValue example_metadata \<rparr>
                       else Rejected (FetchError (js ''fetch failed''))),
       url_toString = (\<lambda>u. url_base u),
       sanitizeUrl = (\<lambda>u. Inr u),
       open_browser = (\<lambda>u. Some (Error (js ''spawn xdg-open ENOENT''))) \<rparr>"

definition example_tls :: TLSClientCertConfig where
  "example_tls =
     \<lparr> cert = Some (js ''/certs/client.pem''), key = Some (js ''/certs/client.key''),
       ca = None, passphrase = None, rejectUnauthorized = Some False \<rparr>"

definition example_options :: OAuthProviderOptions where
  "example_options =
     \<lparr> opt_serverUrl = js ''https://example.com/mcp'',
       opt_callbackPort = 3334,
       opt_host = js ''localhost'',
       opt_callbackPath = None,
       opt_configDir = None,
       opt_clientName = Some (js ''MCP CLI Proxy''),
       opt_clientUri = None,
       opt_softwareId = None,
       opt_softwareVersion = None,
       opt_staticOAuthClientMetadata = None,
       opt_staticOAuthClientInfo = None,
       opt_authorizeResource = None,
       opt_serverUrlHash = js ''0a1b2c'',
       opt_authorizationServerMetadata = None,
       opt_tlsClientCert = Some example_tls \<rparr>"

definition example_tls_missing_ca :: TLSClientCertConfig where
  "example_tls_missing_ca = example_tls\<lparr>ca := Some (js ''/certs/ca.pem'')\<rparr>"

definition example_options_missing_ca :: OAuthProviderOptions where
  "example_options_missing_ca =
     example_options\<lparr>opt_tlsClientCert := Some example_tls_missing_ca\<rparr>"

definition example_store :: cred_store where
  "example_store =
     (\<lambda>h. \<lparr> client_info_json = None, tokens_json = None, code_verifier_txt = None \<rparr>)"

definition example_url :: auth_url where
  "example_url =
     \<lparr> url_base = js ''https://example.com/authorize'',
       searchParams = [(js ''response_type'', js ''code''), (js ''scope'', js ''old'')] \<rparr>"

text \<open>
  A provider as the constructor leaves it for options without TLS configuration and
  with a static scope of blanks, after a registration that returned the scope
  \<open>read write\<close>.
\<close>

definition example_provider :: NodeOAuthClientProvider where
  "example_provider =
     \<lparr> options = example_options\<lparr>opt_tlsClientCert := None\<rparr>,
       serverUrlHash = js ''0a1b2c'',
       callbackPath = js ''/oauth/callback'',
       clientName = js ''MCP CLI Proxy'',
       clientUri = js ''https://github.com/modelcontextprotocol/mcp-cli'',
       softwareId = js ''2e6dc280-f3c3-4e01-99a7-8181dbd1d23d'',
       softwareVersion = js ''0.1.0'',
       staticOAuthClientMetadata = Some \<lparr> md_scope = Some (js ''  ''), md_props = Map.empty \<rparr>,
       staticOAuthClientInfo = None,
       authorizeResource = Some (js ''https://example.com''),
       priv_state = js ''uuid'',
       priv_clientInfo = Some \<lparr> client_id = js ''abc'', info_scope = Some (js ''read write'') \<rparr>,
       authorizationServerMetadata = None,
       tlsClientCert = None,
       customAgent = None \<rparr>"

definition example_remote :: "nat \<Rightarrow> transport_kind \<Rightarrow> attempt_result" where
  "example_remote n k = (case k of StreamableHttp \<Rightarrow> RejectionStatus 404 | EventStream \<Rightarrow> Connected)"

definition example_messages :: "arrival list" where
  "example_messages =
     [FromLocal \<lparr> tool_name = Some (js ''danger''), payload = JNum 1 \<rparr>,
      FromRemote \<lparr> tool_name = None, payload = JNum 2 \<rparr>,
      FromLocal \<lparr> tool_name = Some (js ''search''), payload = JNum 3 \<rparr>]"

section \<open>Facts about traces\<close>

lemma files_read_append: "files_read (xs @ ys) = files_read xs @ files_read ys"
  by (induction xs rule: files_read.induct) auto

lemma agents_built_append: "agents_built (xs @ ys) = agents_built xs @ agents_built ys"
  by (induction xs rule: agents_built.induct) auto

lemma warnings_append: "warnings (xs @ ys) = warnings xs + warnings ys"
  by (induction xs rule: warnings.induct) auto

lemma quiet_append: "quiet (xs @ ys) \<longleftrightarrow> quiet xs \<and> quiet ys"
  by (auto simp: quiet_def agents_built_append warnings_append)

lemma load_cert_ok:
  assumes "\<not> (truthy (cert c) \<and> isl (fs (the (cert c))))"
  shows "\<exists>ev. load_cert fs c = (ev, Inr (loaded fs (cert c))) \<and> quiet ev
           \<and> files_read ev = map the (filter truthy [cert c])"
  using assms by (auto simp: load_cert_def loaded_def quiet_def split: sum.splits)

lemma load_cert_err:
  assumes "truthy (cert c)" "fs (the (cert c)) = Inl e"
  shows "\<exists>ev. load_cert fs c = (ev, Inl e) \<and> quiet ev"
  using assms by (auto simp: load_cert_def quiet_def)

lemma load_key_ok:
  assumes "\<not> (truthy (key c) \<and> isl (fs (the (key c))))"
  shows "\<exists>ev. load_key fs c = (ev, Inr (loaded fs (key c))) \<and> quiet ev
           \<and> files_read ev = map the (filter truthy [key c])"
  using assms by (auto simp: load_key_def loaded_def quiet_def split: sum.splits)

lemma load_key_err:
  assumes "truthy (key c)" "fs (the (key c)) = Inl e"
  shows "\<exists>ev. load_key fs c = (ev, Inl e) \<and> quiet ev"
  using assms by (auto simp: load_key_def quiet_def)

lemma load_ca_ok:
  assumes "\<not> (truthy (ca c) \<and> isl (fs (the (ca c))))"
  shows "\<exists>ev. load_ca fs c = (ev, Inr (loaded fs (ca c))) \<and> quiet ev
           \<and> files_read ev = map the (filter truthy [ca c])"
  using assms by (auto simp: load_ca_def loaded_def quiet_def split: sum.splits)

lemma load_ca_err:
  assumes "truthy (ca c)" "fs (the (ca c)) = Inl e"
  shows "\<exists>ev. load_ca fs c = (ev, Inl e) \<and> quiet ev"
  using assms by (auto simp: load_ca_def quiet_def)

lemma set_passphrase_quiet:
  "quiet (fst (set_passphrase c)) \<and> files_read (fst (set_passphrase c)) = []"
  by (simp add: set_passphrase_def quiet_def)

lemma set_rejectUnauthorized_effects:
  "agents_built (fst (set_rejectUnauthorized c)) = []
   \<and> files_read (fst (set_rejectUnauthorized c)) = []
   \<and> warnings (fst (set_rejectUnauthorized c)) = (if rejectUnauthorized c = Some False then 1 else 0)
   \<and> snd (set_rejectUnauthorized c) = rejectUnauthorized c"
  by (simp add: set_rejectUnauthorized_def split: option.splits)

lemma createTLSAgent_success:
  assumes "\<forall>p\<in>set (referenced_files c). \<not> isl (fs p)"
  shows "\<exists>ev a. createTLSAgent fs (Some c) = (ev, Inr a)
           \<and> files_read ev = referenced_files c \<and> agents_built ev = [a]
           \<and> warnings ev = (if rejectUnauthorized c = Some False then 1 else 0)
           \<and> connect_cert a = loaded fs (cert c) \<and> connect_key a = loaded fs (key c)
           \<and> connect_ca a = loaded fs (ca c)
           \<and> connect_rejectUnauthorized a = rejectUnauthorized c"
proof -
  from assms have ok: "\<not> (truthy (cert c) \<and> isl (fs (the (cert c))))"
      "\<not> (truthy (key c) \<and> isl (fs (the (key c))))"
      "\<not> (truthy (ca c) \<and> isl (fs (the (ca c))))"
    by (auto simp: referenced_files_def)
  obtain ev1 where 1: "load_cert fs c = (ev1, Inr (loaded fs (cert c)))" "quiet ev1"
      "files_read ev1 = map the (filter truthy [cert c])"
    using load_cert_ok [of c fs] ok(1) by blast
  obtain ev2 where 2: "load_key fs c = (ev2, Inr (loaded fs (key c)))" "quiet ev2"
      "files_read ev2 = map the (filter truthy [key c])"
    using load_key_ok [of c fs] ok(2) by blast
  obtain ev3 where 3: "load_ca fs c = (ev3, Inr (loaded fs (ca c)))" "quiet ev3"
      "files_read ev3 = map the (filter truthy [ca c])"
    using load_ca_ok [of c fs] ok(3) by blast
  obtain ev4 pw where 4: "set_passphrase c = (ev4, pw)" by (cases "set_passphrase c")
  obtain ev5 ru where 5: "set_rejectUnauthorized c = (ev5, ru)" by (cases "set_rejectUnauthorized c")
  from 4 set_passphrase_quiet [of c] have q4: "quiet ev4" "files_read ev4 = []" by simp_all
  from 5 set_rejectUnauthorized_effects [of c]
  have q5: "agents_built ev5 = []" "files_read ev5 = []"
      "warnings ev5 = (if rejectUnauthorized c = Some False then 1 else 0)"
      "ru = rejectUnauthorized c" by simp_all
  have fr: "files_read ev1 @ files_read ev2 @ files_read ev3 = referenced_files c"
    unfolding 1(3) 2(3) 3(3) by (simp add: referenced_files_def)
  show ?thesis
    using 1(2) 2(2) 3(2) q4 q5 fr
    by (simp add: createTLSAgent_def 1(1) 2(1) 3(1) 4 5 Let_def quiet_def
        files_read_append agents_built_append warnings_append)
qed

lemma createTLSAgent_failure:
  assumes "\<exists>p\<in>set (referenced_files c). isl (fs p)"
  shows "\<exists>ev e. createTLSAgent fs (Some c) = (ev, Inl e)
           \<and> (\<exists>p\<in>set (referenced_files c). fs p = Inl e) \<and> quiet ev"
proof (cases "truthy (cert c) \<and> isl (fs (the (cert c)))")
  case True
  then obtain e where e: "fs (the (cert c)) = Inl e" by (auto simp: isl_def)
  with True obtain ev where "load_cert fs c = (ev, Inl e)" "quiet ev"
    using load_cert_err by blast
  moreover from True e have "\<exists>p\<in>set (referenced_files c). fs p = Inl e"
    by (auto simp: referenced_files_def)
  ultimately show ?thesis by (simp add: createTLSAgent_def)
next
  case c1: False
  then obtain ev1 where 1: "load_cert fs c = (ev1, Inr (loaded fs (cert c)))" "quiet ev1"
    using load_cert_ok by blast
  show ?thesis
  proof (cases "truthy (key c) \<and> isl (fs (the (key c)))")
    case True
    then obtain e where e: "fs (the (key c)) = Inl e" by (auto simp: isl_def)
    with True obtain ev where "load_key fs c = (ev, Inl e)" "quiet ev"
      using load_key_err by blast
    moreover from True e have "\<exists>p\<in>set (referenced_files c). fs p = Inl e"
      by (auto simp: referenced_files_def)
    ultimately show ?thesis using 1 by (simp add: createTLSAgent_def quiet_append)
  next
    case c2: False
    then obtain ev2 where 2: "load_key fs c = (ev2, Inr (loaded fs (key c)))" "quiet ev2"
      using load_key_ok by blast
    from assms c1 c2 have c3: "truthy (ca c) \<and> isl (fs (the (ca c)))"
      by (auto simp: referenced_files_def split: if_splits)
    then obtain e where e: "fs (the (ca c)) = Inl e" by (auto simp: isl_def)
    with c3 obtain ev where "load_ca fs c = (ev, Inl e)" "quiet ev"
      using load_ca_err by blast
    moreover from c3 e have "\<exists>p\<in>set (referenced_files c). fs p = Inl e"
      by (auto simp: referenced_files_def)
    ultimately show ?thesis using 1 2 by (simp add: createTLSAgent_def quiet_append)
  qed
qed

lemma constructor_with_tls_failure:
  assumes "opt_tlsClientCert opts = Some c"
    and "createTLSAgent (readFileSync w) (Some c) = (ev, Inl e)"
  shows "new_NodeOAuthClientProvider w uuid version opts =
           (Debug ''Creating custom TLS agent with client certificate'' # ev, Inl e)"
  using assms by (simp add: new_NodeOAuthClientProvider_def Let_def)

lemma constructor_with_tls_success:
  assumes "opt_tlsClientCert opts = Some c"
    and "createTLSAgent (readFileSync w) (Some c) = (ev, Inr a)"
  shows "\<exists>this. new_NodeOAuthClientProvider w uuid version opts =
           (Debug ''Creating custom TLS agent with client certificate'' # ev, Inr this)
           \<and> customAgent this = Some a"
  using assms by (simp add: new_NodeOAuthClientProvider_def Let_def)

lemma constructor_without_tls:
  assumes "opt_tlsClientCert opts = None"
  shows "\<exists>this. new_NodeOAuthClientProvider w uuid version opts = ([], Inr this)
           \<and> customAgent this = None"
  using assms by (simp add: new_NodeOAuthClientProvider_def Let_def)

lemma createTLSAgent_Inr_files:
  assumes "createTLSAgent fs (Some c) = (ev, Inr a)"
  shows "\<forall>p\<in>set (referenced_files c). \<not> isl (fs p)"
proof (rule ccontr)
  assume "\<not> (\<forall>p\<in>set (referenced_files c). \<not> isl (fs p))"
  then have "\<exists>p\<in>set (referenced_files c). isl (fs p)" by blast
  from createTLSAgent_failure [OF this] assms show False by auto
qed

lemma createTLSAgent_Inr_effects:
  assumes "createTLSAgent fs (Some c) = (ev, Inr a)"
  shows "agents_built ev = [a]"
    and "warnings ev = (if rejectUnauthorized c = Some False then 1 else 0)"
    and "connect_rejectUnauthorized a = rejectUnauthorized c"
  using createTLSAgent_success [OF createTLSAgent_Inr_files [OF assms]] assms by auto

lemma constructor_builds_agent:
  assumes "opt_tlsClientCert opts = Some c"
    and "new_NodeOAuthClientProvider w uuid version opts = (ev0, Inr this0)"
  shows "\<exists>a. customAgent this0 = Some a \<and> agents_built ev0 = [a]"
proof -
  obtain ev r where b: "createTLSAgent (readFileSync w) (Some c) = (ev, r)"
    by (cases "createTLSAgent (readFileSync w) (Some c)")
  show ?thesis
  proof (cases r)
    case (Inl e)
    with constructor_with_tls_failure [OF assms(1), of w ev e uuid version] b assms(2)
    show ?thesis by simp
  next
    case (Inr a)
    with b have b': "createTLSAgent (readFileSync w) (Some c) = (ev, Inr a)" by simp
    from constructor_with_tls_success [OF assms(1) b', of uuid version] assms(2)
      createTLSAgent_Inr_effects(1) [OF b']
    show ?thesis by auto
  qed
qed

section \<open>The TLS identity\<close>

text \<open>
  C3. Building the TLS identity loads every file the configuration refers to, in the
  constructor and before anything else happens. If one of these files cannot be read,
  the constructor throws the error of that read, no agent is constructed and no
  provider exists. Otherwise exactly one agent is constructed, the reads are those of
  the referenced files, and the agent holds the content of the certificate, the key and
  the CA file exactly for the fields that are configured: the identity is never partial.
  The error is the one \<open>readFileSync\<close> threw; the specification calls it
  CertificateLoadError.
\<close>

theorem tls_identity_all_or_nothing:
  assumes "opt_tlsClientCert opts = Some c"
  shows "if \<exists>p\<in>set (referenced_files c). isl (readFileSync w p)
         then \<exists>ev e. new_NodeOAuthClientProvider w uuid version opts = (ev, Inl e)
                \<and> (\<exists>p\<in>set (referenced_files c). readFileSync w p = Inl e)
                \<and> agents_built ev = []
         else \<exists>ev this a. new_NodeOAuthClientProvider w uuid version opts = (ev, Inr this)
                \<and> customAgent this = Some a
                \<and> agents_built ev = [a]
                \<and> files_read ev = referenced_files c
                \<and> connect_cert a = loaded (readFileSync w) (cert c)
                \<and> connect_key a = loaded (readFileSync w) (key c)
                \<and> connect_ca a = loaded (readFileSync w) (ca c)
                \<and> (connect_cert a = None \<longleftrightarrow> \<not> truthy (cert c))
                \<and> (connect_key a = None \<longleftrightarrow> \<not> truthy (key c))
                \<and> (connect_ca a = None \<longleftrightarrow> \<not> truthy (ca c))"
proof (cases "\<exists>p\<in>set (referenced_files c). isl (readFileSync w p)")
  case True
  from createTLSAgent_failure [OF True] obtain ev e where
    f: "createTLSAgent (readFileSync w) (Some c) = (ev, Inl e)"
       "\<exists>p\<in>set (referenced_files c). readFileSync w p = Inl e" "quiet ev"
    by blast
  from constructor_with_tls_failure [OF assms f(1)]
  have "new_NodeOAuthClientProvider w uuid version opts =
          (Debug ''Creating custom TLS agent with client certificate'' # ev, Inl e)" .
  with f(2,3) True show ?thesis by (auto simp: quiet_def)
next
  case False
  then have all: "\<forall>p\<in>set (referenced_files c). \<not> isl (readFileSync w p)" by blast
  from createTLSAgent_success [OF all] obtain ev a where
    s: "createTLSAgent (readFileSync w) (Some c) = (ev, Inr a)"
       "files_read ev = referenced_files c" "agents_built ev = [a]"
       "connect_cert a = loaded (readFileSync w) (cert c)"
       "connect_key a = loaded (readFileSync w) (key c)"
       "connect_ca a = loaded (readFileSync w) (ca c)"
    by blast
  from constructor_with_tls_success [OF assms s(1)] obtain this where
    n: "new_NodeOAuthClientProvider w uuid version opts =
          (Debug ''Creating custom TLS agent with client certificate'' # ev, Inr this)"
       "customAgent this = Some a"
    by blast
  from all have l: "loaded (readFileSync w) (cert c) = None \<longleftrightarrow> \<not> truthy (cert c)"
      "loaded (readFileSync w) (key c) = None \<longleftrightarrow> \<not> truthy (key c)"
      "loaded (readFileSync w) (ca c) = None \<longleftrightarrow> \<not> truthy (ca c)"
    by (auto simp: loaded_def referenced_files_def isl_def split: sum.splits)
  from False n s l show ?thesis by simp
qed

lemma example_fs_ca: "example_fs (js ''/certs/ca.pem'') = Inl (SystemError (js ''ENOENT: no such file or directory''))"
  by (simp add: example_fs_def js_def)

lemma example_tls_files_exist:
  "\<forall>p\<in>set (referenced_files example_tls). \<not> isl (example_fs p)"
  by (simp add: referenced_files_def example_tls_def example_fs_def js_def)

theorem tls_identity_all_or_nothing_witness:
  "opt_tlsClientCert example_options_missing_ca = Some example_tls_missing_ca
   \<and> isl (readFileSync example_env (js ''/certs/ca.pem''))
   \<and> (\<exists>ev e. new_NodeOAuthClientProvider example_env (js ''uuid'') (js ''0.1.0'')
                example_options_missing_ca = (ev, Inl e)
              \<and> agents_built ev = [])
   \<and> opt_tlsClientCert example_options = Some example_tls
   \<and> (\<exists>ev this a. new_NodeOAuthClientProvider example_env (js ''uuid'') (js ''0.1.0'')
                example_options = (ev, Inr this)
              \<and> customAgent this = Some a \<and> agents_built ev = [a]
              \<and> files_read ev = [js ''/certs/client.pem'', js ''/certs/client.key'']
              \<and> connect_cert a = Some [45, 45, 45] \<and> connect_key a = Some [45, 45]
              \<and> connect_ca a = None)"
proof -
  have h: "opt_tlsClientCert example_options_missing_ca = Some example_tls_missing_ca"
    by (simp add: example_options_missing_ca_def example_options_def)
  have m: "isl (readFileSync example_env (js ''/certs/ca.pem''))"
    by (simp add: example_env_def example_fs_ca)
  have r: "js ''/certs/ca.pem'' \<in> set (referenced_files example_tls_missing_ca)"
    by (simp add: referenced_files_def example_tls_missing_ca_def example_tls_def js_def)
  from r m have "\<exists>p\<in>set (referenced_files example_tls_missing_ca). isl (readFileSync example_env p)"
    by blast
  with tls_identity_all_or_nothing [OF h, of example_env "js ''uuid''" "js ''0.1.0''"]
  have bad: "\<exists>ev e. new_NodeOAuthClientProvider example_env (js ''uuid'') (js ''0.1.0'')
                example_options_missing_ca = (ev, Inl e) \<and> agents_built ev = []"
    by auto
  have h': "opt_tlsClientCert example_options = Some example_tls"
    by (simp add: example_options_def)
  have fs: "readFileSync example_env = example_fs" by (simp add: example_env_def)
  have ok: "\<not> (\<exists>p\<in>set (referenced_files example_tls). isl (readFileSync example_env p))"
    using example_tls_files_exist by (simp add: fs)
  have rf: "referenced_files example_tls = [js ''/certs/client.pem'', js ''/certs/client.key'']"
    by (simp add: referenced_files_def example_tls_def js_def)
  have l: "loaded example_fs (cert example_tls) = Some [45, 45, 45]"
      "loaded example_fs (key example_tls) = Some [45, 45]"
      "loaded example_fs (ca example_tls) = None"
    by (simp_all add: loaded_def example_tls_def example_fs_def js_def)
  from tls_identity_all_or_nothing [OF h', of example_env "js ''uuid''" "js ''0.1.0''"] ok
  have good: "\<exists>ev this a. new_NodeOAuthClientProvider example_env (js ''uuid'') (js ''0.1.0'')
                example_options = (ev, Inr this)
              \<and> customAgent this = Some a \<and> agents_built ev = [a]
              \<and> files_read ev = [js ''/certs/client.pem'', js ''/certs/client.key'']
              \<and> connect_cert a = Some [45, 45, 45] \<and> connect_key a = Some [45, 45]
              \<and> connect_ca a = None"
    unfolding fs rf l by (simp only: if_False) blast
  from h m bad h' good show ?thesis by blast
qed

text \<open>
  C7. When the configuration leaves \<open>rejectUnauthorized\<close> out, a build sets no such option
  on the agent, so verification stays at its default (true), and logs no warning. A
  build with \<open>rejectUnauthorized\<close> false logs the warning exactly once. (A build that
  stops at a file it cannot read never reaches the warning: \<open>createTLSAgent_failure\<close>.)
\<close>

theorem rejectUnauthorized_default_and_warning:
  assumes "createTLSAgent fs (Some c) = (ev, Inr a)"
  shows "connect_rejectUnauthorized a = rejectUnauthorized c
         \<and> (rejectUnauthorized c = None \<longrightarrow> verifies_server a \<and> warnings ev = 0)
         \<and> (rejectUnauthorized c = Some False \<longrightarrow> \<not> verifies_server a \<and> warnings ev = 1)
         \<and> (rejectUnauthorized c = Some True \<longrightarrow> verifies_server a \<and> warnings ev = 0)"
  using createTLSAgent_Inr_effects [OF assms] by (simp add: verifies_server_def)

theorem rejectUnauthorized_default_and_warning_witness:
  "\<exists>ev a. createTLSAgent example_fs (Some example_tls) = (ev, Inr a)
          \<and> rejectUnauthorized example_tls = Some False
          \<and> \<not> verifies_server a \<and> warnings ev = 1"
proof -
  from createTLSAgent_success [OF example_tls_files_exist] obtain ev a where
    b: "createTLSAgent example_fs (Some example_tls) = (ev, Inr a)" by blast
  have f: "rejectUnauthorized example_tls = Some False" by (simp add: example_tls_def)
  from rejectUnauthorized_default_and_warning [OF b] f b show ?thesis by simp
qed

section \<open>The agent over a run\<close>

lemma until_await_append: "until_await ev = (a, b) \<Longrightarrow> ev = a @ b"
  by (induction ev arbitrary: a b rule: until_await.induct) (auto split: prod.splits)

lemma fetch_try_no_agent: "agents_built (fst (fetch_try w u ag)) = []"
  by (simp add: fetch_try_def split: fetch_result.splits json_body.splits)

lemma fetchAuthorizationServerMetadata_no_agent:
  "agents_built (fst (fetchAuthorizationServerMetadata w u ag)) = []"
proof (cases "getMetadataUrl w u")
  case (Inl e)
  then show ?thesis by (simp add: fetchAuthorizationServerMetadata_def)
next
  case (Inr m)
  obtain ev r where t: "fetch_try w m ag = (ev, r)" by (cases "fetch_try w m ag")
  with fetch_try_no_agent [of w m ag] have "agents_built ev = []" by simp
  with Inr t show ?thesis
    by (cases r) (simp_all add: fetchAuthorizationServerMetadata_def agents_built_append)
qed

lemma getAuthorizationServerMetadata_keeps_agent:
  assumes "getAuthorizationServerMetadata w this = (ev, this', r)"
  shows "agents_built ev = [] \<and> customAgent this' = customAgent this"
proof (cases "authorizationServerMetadata this")
  case (Some m)
  with assms show ?thesis by (auto simp: getAuthorizationServerMetadata_def)
next
  case None
  obtain fe fr where f: "fetchAuthorizationServerMetadata w (opt_serverUrl (options this))
      (customAgent this) = (fe, fr)"
    by (cases "fetchAuthorizationServerMetadata w (opt_serverUrl (options this)) (customAgent this)")
  with fetchAuthorizationServerMetadata_no_agent
         [of w "opt_serverUrl (options this)" "customAgent this"]
  have "agents_built fe = []" by simp
  with None f assms show ?thesis
    by (cases fr)
       (auto simp: getAuthorizationServerMetadata_def agents_built_append
             split: option.splits)
qed

lemma open_try_no_agent: "agents_built (fst (open_try w u)) = []"
  by (simp add: open_try_def split: sum.splits option.splits)

lemma redirectToAuthorization_keeps_agent:
  assumes "redirectToAuthorization w this u = (ev, this', u', r)"
  shows "agents_built ev = [] \<and> customAgent this' = customAgent this"
proof -
  obtain bg t x where g: "getAuthorizationServerMetadata w this = (bg, t, x)"
    by (cases "getAuthorizationServerMetadata w this")
  obtain a b where ua: "until_await bg = (a, b)" by (cases "until_await bg")
  from getAuthorizationServerMetadata_keeps_agent [OF g]
  have k: "agents_built bg = []" "customAgent t = customAgent this" by simp_all
  from until_await_append [OF ua] k(1) have ab: "agents_built a = []" "agents_built b = []"
    by (simp_all add: agents_built_append)
  let ?u = "url_toString w
      ((if truthy (authorizeResource this)
        then u\<lparr>searchParams := searchParams_set (js ''resource'') (the (authorizeResource this))
                 (searchParams u)\<rparr>
        else u)\<lparr>searchParams := searchParams_set (js ''scope'') (getEffectiveScope this)
          (searchParams (if truthy (authorizeResource this)
        then u\<lparr>searchParams := searchParams_set (js ''resource'') (the (authorizeResource this))
                 (searchParams u)\<rparr>
        else u))\<rparr>)"
  obtain oe orr where o: "open_try w ?u = (oe, orr)" by (cases "open_try w ?u")
  with open_try_no_agent [of w ?u] have oa: "agents_built oe = []" by simp
  from assms g ua o ab oa k(2) show ?thesis
    by (cases orr) (auto simp: redirectToAuthorization_def Let_def agents_built_append)
qed

lemma step_keeps_agent:
  assumes "step w (this, st) c = (ev, this', st')"
  shows "agents_built ev = [] \<and> customAgent this' = customAgent this"
proof (cases c)
  case CallGetAuthorizationServerMetadata
  with assms getAuthorizationServerMetadata_keeps_agent [of w this] show ?thesis
    by (auto split: prod.splits)
next
  case CallClientInformation
  with assms show ?thesis
    by (auto simp: clientInformation_def split: option.splits)
next
  case (CallSaveClientInformation ci)
  with assms show ?thesis by (auto simp: saveClientInformation_def)
next
  case CallTokens
  with assms show ?thesis by (auto simp: tokens_def agents_built_append split: option.splits)
next
  case (CallSaveTokens t)
  with assms show ?thesis by (auto simp: saveTokens_def agents_built_append)
next
  case (CallRedirectToAuthorization u)
  with assms redirectToAuthorization_keeps_agent [of w this u] show ?thesis
    by (auto split: prod.splits)
next
  case (CallSaveCodeVerifier v)
  with assms show ?thesis by (auto simp: saveCodeVerifier_def)
next
  case CallCodeVerifier
  with assms show ?thesis by (auto simp: codeVerifier_def split: option.splits)
next
  case (CallInvalidateCredentials sc)
  with assms show ?thesis by (cases sc) auto
qed (use assms in auto)

lemma run_keeps_agent:
  assumes "run (this, st) cs = (ev, this', st')"
  shows "agents_built ev = [] \<and> customAgent this' = customAgent this"
  using assms
proof (induction cs arbitrary: this st ev this' st')
  case Nil
  then show ?case by simp
next
  case (Cons wc cs)
  obtain w c where wc: "wc = (w, c)" by (cases wc)
  obtain e1 t1 s1 where s: "step w (this, st) c = (e1, t1, s1)"
    by (cases "step w (this, st) c")
  obtain e2 t2 s2 where r: "run (t1, s1) cs = (e2, t2, s2)" by (cases "run (t1, s1) cs")
  from Cons.prems wc s r have eq: "ev = e1 @ e2" "this' = t2" by simp_all
  from step_keeps_agent [OF s] Cons.IH [OF r] eq show ?case
    by (simp add: agents_built_append)
qed

text \<open>
  C6. The constructor builds the agent exactly when a TLS configuration is supplied, and
  then builds one agent. No member of the provider, and no write of \<open>runProxy\<close> into the
  provider, builds an agent or changes the stored one: after any sequence of calls, in
  any environments, \<open>getCustomAgent\<close> returns the agent the constructor built (and
  nothing when it built none), and that agent is the only one built in the whole run.
\<close>

theorem custom_agent_built_once_and_kept:
  assumes "new_NodeOAuthClientProvider w uuid version opts = (ev0, Inr this0)"
    and "run (this0, st0) calls = (ev, this, st)"
  shows "agents_built ev0 = (case customAgent this0 of None \<Rightarrow> [] | Some a \<Rightarrow> [a])
         \<and> (customAgent this0 = None \<longleftrightarrow> opt_tlsClientCert opts = None)
         \<and> agents_built ev = []
         \<and> getCustomAgent this = getCustomAgent this0
         \<and> agents_built ev0 = (case getCustomAgent this0 of None \<Rightarrow> [] | Some a \<Rightarrow> [a])
         \<and> agents_built (ev0 @ ev) = (case getCustomAgent this of None \<Rightarrow> [] | Some a \<Rightarrow> [a])
         \<and> (getCustomAgent this = None \<longleftrightarrow> opt_tlsClientCert opts = None)"
proof -
  have "agents_built ev0 = (case customAgent this0 of None \<Rightarrow> [] | Some a \<Rightarrow> [a])
        \<and> (customAgent this0 = None \<longleftrightarrow> opt_tlsClientCert opts = None)"
  proof (cases "opt_tlsClientCert opts")
    case None
    from constructor_without_tls [OF None, of w uuid version] assms(1) None
    show ?thesis by auto
  next
    case (Some c)
    from constructor_builds_agent [OF Some assms(1)] Some
    show ?thesis by auto
  qed
  with run_keeps_agent [OF assms(2)] show ?thesis
    by (simp add: getCustomAgent_def agents_built_append)
qed

lemma example_constructed:
  "\<exists>ev0 this0 a. new_NodeOAuthClientProvider example_env (js ''uuid'') (js ''0.1.0'') example_options
       = (ev0, Inr this0) \<and> customAgent this0 = Some a"
proof -
  have fs: "readFileSync example_env = example_fs" by (simp add: example_env_def)
  from createTLSAgent_success [OF example_tls_files_exist] obtain ev a where
    b: "createTLSAgent (readFileSync example_env) (Some example_tls) = (ev, Inr a)"
    unfolding fs by blast
  have h: "opt_tlsClientCert example_options = Some example_tls"
    by (simp add: example_options_def)
  from constructor_with_tls_success [OF h b, of "js ''uuid''" "js ''0.1.0''"]
  show ?thesis by blast
qed

theorem custom_agent_built_once_and_kept_witness:
  "\<exists>ev0 this0 ev this st a.
      new_NodeOAuthClientProvider example_env (js ''uuid'') (js ''0.1.0'') example_options
        = (ev0, Inr this0)
      \<and> run (this0, example_store)
           [(example_env, CallRedirectToAuthorization example_url),
            (example_env, CallInvalidateCredentials ScopeAll),
            (example_env, CallGetAuthorizationServerMetadata)] = (ev, this, st)
      \<and> agents_built ev0 = [a] \<and> agents_built ev = []
      \<and> getCustomAgent this0 = Some a \<and> getCustomAgent this = Some a"
proof -
  from example_constructed obtain ev0 this0 a where
    c: "new_NodeOAuthClientProvider example_env (js ''uuid'') (js ''0.1.0'') example_options
          = (ev0, Inr this0)" "customAgent this0 = Some a"
    by blast
  obtain ev this st where
    r: "run (this0, example_store)
           [(example_env, CallRedirectToAuthorization example_url),
            (example_env, CallInvalidateCredentials ScopeAll),
            (example_env, CallGetAuthorizationServerMetadata)] = (ev, this, st)"
    using prod_cases3 by blast
  from custom_agent_built_once_and_kept [OF c(1) r] c(2)
  have "agents_built ev0 = [a]" "agents_built ev = []"
    "getCustomAgent this0 = Some a" "getCustomAgent this = Some a"
    by (auto simp: getCustomAgent_def)
  with c(1) r show ?thesis by blast
qed

section \<open>The effective scope\<close>

lemma trim_empty_iff: "trim s = [] \<longleftrightarrow> (\<forall>c\<in>set s. isWhiteSpace c)"
proof
  assume "trim s = []"
  then have e: "dropWhile isWhiteSpace (rev (dropWhile isWhiteSpace s)) = []"
    by (simp add: trim_def)
  show "\<forall>c\<in>set s. isWhiteSpace c"
  proof (cases "dropWhile isWhiteSpace s")
    case Nil
    then show ?thesis by simp
  next
    case (Cons x xs)
    then have "\<not> isWhiteSpace x" using hd_dropWhile [of isWhiteSpace s] by simp
    moreover from e Cons have "isWhiteSpace x" by simp
    ultimately show ?thesis by simp
  qed
next
  assume "\<forall>c\<in>set s. isWhiteSpace c"
  then have "dropWhile isWhiteSpace s = []" by simp
  then show "trim s = []" unfolding trim_def by (simp del: dropWhile_eq_Nil_conv)
qed

lemma scope_present_iff: "scope_present sc \<longleftrightarrow> counting sc \<noteq> None"
proof (cases sc)
  case None
  then show ?thesis by (simp add: scope_present_def counting_def)
next
  case (Some s)
  have "length (trim s) > 0 \<longleftrightarrow> non_whitespace s"
    using trim_empty_iff [of s] by (auto simp: non_whitespace_def list_ex_iff)
  moreover have "non_whitespace s \<Longrightarrow> s \<noteq> []" by (auto simp: non_whitespace_def)
  ultimately show ?thesis using Some by (auto simp: scope_present_def counting_def)
qed

lemma scope_present_value: "scope_present sc \<Longrightarrow> counting sc = Some (the sc)"
  by (cases sc) (auto simp: scope_present_iff counting_def split: if_splits)

lemma getEffectiveScope_priority:
  "getEffectiveScope this =
     priority_scope (static_scope this) (registered_scope this) (supported_scopes this)"
proof -
  have s: "(case staticOAuthClientMetadata this of None \<Rightarrow> False
            | Some md \<Rightarrow> scope_present (md_scope md)) = scope_present (static_scope this)"
    by (simp add: static_scope_def scope_present_def split: option.splits)
  have r: "(case priv_clientInfo this of None \<Rightarrow> False
            | Some ci \<Rightarrow> scope_present (info_scope ci)) = scope_present (registered_scope this)"
    by (simp add: registered_scope_def scope_present_def split: option.splits)
  have j: "(case authorizationServerMetadata this of None \<Rightarrow> False
            | Some m \<Rightarrow> (case scopes_supported m of None \<Rightarrow> False | Some ss \<Rightarrow> length ss \<noteq> 0))
           = (joined (supported_scopes this) \<noteq> None)"
    by (simp add: supported_scopes_def joined_def split: option.splits list.splits)
  have sv: "the (md_scope (the (staticOAuthClientMetadata this))) = the (static_scope this)"
    if "scope_present (static_scope this)"
    using that by (auto simp: static_scope_def scope_present_def split: option.splits)
  have rv: "the (info_scope (the (priv_clientInfo this))) = the (registered_scope this)"
    if "scope_present (registered_scope this)"
    using that by (auto simp: registered_scope_def scope_present_def split: option.splits)
  have jv: "joined (supported_scopes this)
              = Some (join (js '' '') (the (scopes_supported (the (authorizationServerMetadata this)))))"
    if "joined (supported_scopes this) \<noteq> None"
    using that by (auto simp: supported_scopes_def joined_def js_def split: option.splits list.splits)
  show ?thesis
  proof (cases "scope_present (static_scope this)")
    case True
    with scope_present_value [OF True] sv [OF True] s show ?thesis
      by (simp add: getEffectiveScope_def priority_scope_def)
  next
    case n1: False
    then have c1: "counting (static_scope this) = None" by (simp add: scope_present_iff)
    show ?thesis
    proof (cases "scope_present (registered_scope this)")
      case True
      with scope_present_value [OF True] rv [OF True] s r n1 c1 show ?thesis
        by (simp add: getEffectiveScope_def priority_scope_def)
    next
      case n2: False
      then have c2: "counting (registered_scope this) = None" by (simp add: scope_present_iff)
      show ?thesis
      proof (cases "joined (supported_scopes this) = None")
        case True
        with s r j n1 n2 c1 c2 show ?thesis
          by (simp add: getEffectiveScope_def priority_scope_def)
      next
        case False
        with jv [OF False] s r j n1 n2 c1 c2 show ?thesis
          by (simp add: getEffectiveScope_def priority_scope_def)
      qed
    qed
  qed
qed

lemma searchParams_set_values:
  "map snd (filter (\<lambda>(n, _). n = k) (searchParams_set k v ps)) = [v]"
proof (induction ps)
  case Nil
  then show ?case by simp
next
  case (Cons p ps)
  obtain k' v' where p: "p = (k', v')" by (cases p)
  have "filter (\<lambda>(n, _). n = k) (filter (\<lambda>(n, _). n \<noteq> k) ps) = []"
    by (induction ps) auto
  with Cons p show ?case by simp
qed

lemma redirectToAuthorization_url:
  assumes "redirectToAuthorization w this u = (ev, this', u', r)"
  shows "param_values (js ''scope'') u' = [getEffectiveScope this]"
  using assms
  by (auto simp: redirectToAuthorization_def Let_def param_values_def searchParams_set_values
      split: prod.splits sum.splits)

lemma clientMetadata_scope:
  "clientMetadata this (js ''scope'') = Some (JStr (getEffectiveScope this))"
  by (simp add: clientMetadata_def Let_def)

text \<open>
  C10. The effective scope is chosen by the four-level priority: the static metadata's
  scope when it is not all whitespace, else the registered client's scope when it is
  not all whitespace, else the server's supported scopes joined by single spaces when
  there is at least one, else \<open>openid email profile\<close>. It is the \<open>scope\<close> of the client
  metadata, and the one value of the \<open>scope\<close> parameter of every authorization URL that
  \<open>redirectToAuthorization\<close> hands on.
\<close>

theorem effective_scope_priority:
  "getEffectiveScope this =
     priority_scope (static_scope this) (registered_scope this) (supported_scopes this)
   \<and> clientMetadata this (js ''scope'') = Some (JStr (getEffectiveScope this))
   \<and> param_values (js ''scope'') (fst (snd (snd (redirectToAuthorization w this u))))
       = [getEffectiveScope this]"
proof -
  obtain ev this' u' r where x: "redirectToAuthorization w this u = (ev, this', u', r)"
    using prod_cases4 by blast
  from redirectToAuthorization_url [OF x] x getEffectiveScope_priority [of this]
    clientMetadata_scope [of this]
  show ?thesis by simp
qed

lemma blank_not_counting: "counting (Some (js ''  '')) = None"
  by (simp add: counting_def non_whitespace_def isWhiteSpace_def js_def)

lemma read_write_counting: "counting (Some (js ''read write'')) = Some (js ''read write'')"
  by (simp add: counting_def non_whitespace_def isWhiteSpace_def js_def)

theorem effective_scope_priority_witness:
  "getEffectiveScope example_provider = js ''read write''
   \<and> clientMetadata example_provider (js ''scope'') = Some (JStr (js ''read write''))
   \<and> param_values (js ''scope'')
        (fst (snd (snd (redirectToAuthorization example_env example_provider example_url))))
       = [js ''read write'']"
proof -
  have "priority_scope (static_scope example_provider) (registered_scope example_provider)
          (supported_scopes example_provider) = js ''read write''"
    by (simp add: priority_scope_def static_scope_def registered_scope_def
        supported_scopes_def example_provider_def blank_not_counting read_write_counting
        joined_def)
  with effective_scope_priority [of example_provider example_env example_url]
  show ?thesis by simp
qed

section \<open>Redirecting to the authorization URL\<close>










section \<open>Fetching the authorization server metadata\<close>

lemma fetch_try_result:
  "snd (fetch_try w u ag) =
     (case fetch w u ag of
        Rejected e \<Rightarrow> Inl e
      | Response r \<Rightarrow>
          if ok r then
            (case body r of
               BodyError e \<Rightarrow> Inl e
             | BodyNull \<Rightarrow> Inl (TypeError (js ''Cannot read properties of null''))
             | BodyValue m \<Rightarrow> Inr (Some m))
          else Inr None)"
  by (simp add: fetch_try_def split: fetch_result.splits json_body.splits)

text \<open>
  C9, as amended. \<open>getMetadataUrl\<close> runs before the \<open>try\<close> block, so a server URL that
  \<open>new URL\<close> rejects makes \<open>fetchAuthorizationServerMetadata\<close> throw that TypeError, with
  no request made. For every server URL that \<open>new URL\<close> accepts, the call does not
  throw: it returns the parsed metadata when the response is ok and its body parses to
  a value other than \<open>null\<close>, and \<open>undefined\<close> for every status that is not ok and for
  every network, timeout or parse error.
\<close>

theorem fetchAuthorizationServerMetadata_total_on_urls:
  "case new_URL w serverUrl of
     Inl e \<Rightarrow> fetchAuthorizationServerMetadata w serverUrl ag = ([], Inl e)
   | Inr url \<Rightarrow>
       snd (fetchAuthorizationServerMetadata w serverUrl ag) =
         Inr (delivered
                (fetch w (origin url @ js ''/.well-known/oauth-authorization-server'') ag))"
proof (cases "new_URL w serverUrl")
  case (Inl e)
  then show ?thesis by (simp add: fetchAuthorizationServerMetadata_def getMetadataUrl_def)
next
  case (Inr url)
  let ?m = "origin url @ js ''/.well-known/oauth-authorization-server''"
  obtain ev r where t: "fetch_try w ?m ag = (ev, r)" by (cases "fetch_try w ?m ag")
  with fetch_try_result [of w ?m ag] have
    r: "r = (case fetch w ?m ag of
        Rejected e \<Rightarrow> Inl e
      | Response r \<Rightarrow>
          if ok r then
            (case body r of
               BodyError e \<Rightarrow> Inl e
             | BodyNull \<Rightarrow> Inl (TypeError (js ''Cannot read properties of null''))
             | BodyValue m \<Rightarrow> Inr (Some m))
          else Inr None)" by simp
  from Inr t have "snd (fetchAuthorizationServerMetadata w serverUrl ag)
      = Inr (case r of Inl e \<Rightarrow> None | Inr v \<Rightarrow> v)"
    by (cases r) (simp_all add: fetchAuthorizationServerMetadata_def getMetadataUrl_def)
  also have "(case r of Inl e \<Rightarrow> None | Inr v \<Rightarrow> v) = delivered (fetch w ?m ag)"
    unfolding r delivered_def by (simp split: fetch_result.splits json_body.splits)
  finally show ?thesis using Inr by simp
qed

text \<open>
  A server URL without a scheme: the call throws, and makes no request.
\<close>

lemma no_scheme: "\<not> has_scheme (js ''example.com/mcp'')"
  by (simp add: has_scheme_def url_input_def js_def isC0ControlOrSpace_def isTabOrNewline_def
      isAsciiAlpha_def isAsciiDigit_def)

theorem fetchAuthorizationServerMetadata_throws_counterexample:
  "fetchAuthorizationServerMetadata example_env (js ''example.com/mcp'') None
     = ([], Inl (TypeError (js ''Invalid URL'')))"
  by (simp add: fetchAuthorizationServerMetadata_def getMetadataUrl_def new_URL_def no_scheme)

lemma with_scheme: "has_scheme (js ''https://example.com/mcp'')"
  by (simp add: has_scheme_def url_input_def js_def isC0ControlOrSpace_def isTabOrNewline_def
      isAsciiAlpha_def isAsciiDigit_def)

lemma example_new_URL:
  "new_URL example_env (js ''https://example.com/mcp'') = Inr \<lparr> origin = js ''https://example.com'' \<rparr>"
  by (simp add: new_URL_def with_scheme example_env_def)

lemma example_fetch:
  "fetch example_env (js ''https://example.com'' @ js ''/.well-known/oauth-authorization-server'') None
    = Response \<lparr> ok = True, status = 200, statusText = js ''OK'', body = BodyValue example_metadata \<rparr>"
  by (simp add: example_env_def js_def)

theorem fetchAuthorizationServerMetadata_total_on_urls_witness:
  "snd (fetchAuthorizationServerMetadata example_env (js ''https://example.com/mcp'') None)
     = Inr (Some example_metadata)"
  using fetchAuthorizationServerMetadata_total_on_urls
          [of example_env "js ''https://example.com/mcp''" None]
  by (simp add: example_new_URL example_fetch delivered_def)


section \<open>Transport fallback\<close>

text \<open>
  C4. Whatever the remote answers, at most two transports are tried and none twice.
  Under \<open>http-first\<close>, when the streaming-HTTP attempt meets a negative signal, the
  transports tried are streaming HTTP and then the event stream, once each, and the
  outcome is that of the event-stream attempt.
\<close>

theorem http_first_falls_back_once:
  "length (fst (connectToRemoteServer remote strategy)) \<le> 2
   \<and> distinct (fst (connectToRemoteServer remote strategy))
   \<and> (negative_signal (remote 0 StreamableHttp) \<longrightarrow>
        fst (connectToRemoteServer remote HttpFirst) = [StreamableHttp, EventStream]
        \<and> count_list (fst (connectToRemoteServer remote HttpFirst)) StreamableHttp = 1
        \<and> snd (connectToRemoteServer remote HttpFirst) = attempt remote 1 EventStream)"
  by (cases strategy) (simp_all add: connectToRemoteServer_def Let_def)

theorem http_first_falls_back_once_witness:
  "negative_signal (example_remote 0 StreamableHttp)
   \<and> connectToRemoteServer example_remote HttpFirst = ([StreamableHttp, EventStream], Inr EventStream)"
proof -
  have n: "negative_signal (example_remote 0 StreamableHttp)" by (simp add: example_remote_def)
  have a: "attempt example_remote 1 EventStream = Inr EventStream"
    by (simp add: attempt_def example_remote_def)
  from http_first_falls_back_once [of example_remote HttpFirst] n a show ?thesis
    by (simp add: prod_eq_iff)
qed

section \<open>The relay\<close>

lemma relay_sent_to_remote:
  "sent_to_remote (map (relay ig) as) = filter (\<lambda>m. \<not> names_ignored ig m) (from_local as)"
  by (induction as rule: from_local.induct) auto

lemma relay_rejected_locally:
  "rejected_locally (map (relay ig) as) = filter (names_ignored ig) (from_local as)"
  by (induction as rule: from_local.induct) auto

lemma relay_sent_to_local:
  "sent_to_local (map (relay ig) as) = from_remote as"
  by (induction as rule: from_local.induct) auto

text \<open>
  C2. What reaches the remote side is exactly the local messages that name no ignored
  tool, unchanged and in order; each local request naming an ignored tool is rejected
  locally; what reaches the local side from the remote is exactly the remote's
  messages, unchanged and in order.
\<close>

theorem ignored_tools_never_reach_remote:
  "sent_to_remote (mcpProxy ignoredTools arrivals)
     = filter (\<lambda>m. \<not> names_ignored ignoredTools m) (from_local arrivals)
   \<and> rejected_locally (mcpProxy ignoredTools arrivals)
       = filter (names_ignored ignoredTools) (from_local arrivals)
   \<and> sent_to_local (mcpProxy ignoredTools arrivals) = from_remote arrivals
   \<and> length (mcpProxy ignoredTools arrivals) = length arrivals"
  by (simp add: mcpProxy_def relay_sent_to_remote relay_rejected_locally relay_sent_to_local)

theorem ignored_tools_never_reach_remote_witness:
  "sent_to_remote (mcpProxy [js ''danger''] example_messages)
     = [\<lparr> tool_name = Some (js ''search''), payload = JNum 3 \<rparr>]
   \<and> rejected_locally (mcpProxy [js ''danger''] example_messages)
       = [\<lparr> tool_name = Some (js ''danger''), payload = JNum 1 \<rparr>]
   \<and> sent_to_local (mcpProxy [js ''danger''] example_messages)
       = [\<lparr> tool_name = None, payload = JNum 2 \<rparr>]"
  using ignored_tools_never_reach_remote [of "[js ''danger'']" example_messages]
  by (simp add: example_messages_def names_ignored_def js_def)

section \<open>The follower's settle margin\<close>

lemma poll_times_bounded: "t \<in> set (poll_times interval timeout) \<Longrightarrow> t \<le> timeout"
proof -
  assume "t \<in> set (poll_times interval timeout)"
  then have "\<exists>k. t = k * interval \<and> k \<le> timeout div interval"
    unfolding poll_times_def by (auto simp del: upt_Suc)
  then obtain k where k: "t = k * interval" "k \<le> timeout div interval" by blast
  then have "t \<le> (timeout div interval) * interval" by simp
  also have "\<dots> \<le> timeout" by simp
  finally show ?thesis .
qed

lemma find_poll:
  "List.find token_at (poll_times interval timeout) = Some t \<Longrightarrow> t \<le> timeout \<and> token_at t"
  using poll_times_bounded [of t interval timeout]
  by (auto simp: find_Some_iff in_set_conv_nth)

text \<open>
  C5. Whenever \<open>initializeAuth\<close> resolves with \<open>skipBrowserAuth\<close>, \<open>authInitializer\<close>
  announces that it will use the tokens from disk and waits 1000 ms before it returns.
  For a follower: if a poll within the timeout observes the token set, the wait up to
  that poll is at most the timeout and the settle margin follows it; if none does, the
  attempt fails with \<open>AuthTimeoutError\<close> and no margin is applied.
\<close>

theorem follower_settles_after_observing:
  "authInitializer (ev0, Inr (s\<lparr>skipBrowserAuth := True\<rparr>)) srv =
        (ev0 @ [Log CompletedByAnotherInstance, Sleep 1000], server s,
         Inr \<lparr> res_waitForAuthCode = waitForAuthCode s, res_skipBrowserAuth = True \<rparr>)
   \<and> (case List.find token_at (poll_times interval timeout) of
         Some t \<Rightarrow>
           t \<le> timeout \<and> token_at t
           \<and> authInitializer (initializeAuth_follower token_at interval timeout wait) srv =
               ([Sleep t, Log CompletedByAnotherInstance, Sleep 1000], None,
                Inr \<lparr> res_waitForAuthCode = wait, res_skipBrowserAuth = True \<rparr>)
       | None \<Rightarrow>
           authInitializer (initializeAuth_follower token_at interval timeout wait) srv =
             ([Sleep timeout], srv, Inl AuthTimeoutError))"
proof (cases "List.find token_at (poll_times interval timeout)")
  case None
  then show ?thesis by (simp add: authInitializer_def initializeAuth_follower_def)
next
  case (Some t)
  with find_poll [OF Some] show ?thesis
    by (simp add: authInitializer_def initializeAuth_follower_def)
qed

theorem follower_settles_after_observing_witness:
  "authInitializer (initializeAuth_follower (\<lambda>t. 1500 \<le> t) 1000 30000 (0::nat)) (None :: nat option)
     = ([Sleep 2000, Log CompletedByAnotherInstance, Sleep 1000], None,
        Inr \<lparr> res_waitForAuthCode = 0, res_skipBrowserAuth = True \<rparr>)
   \<and> authInitializer (initializeAuth_follower (\<lambda>t. False) 1000 3000 (0::nat)) (None :: nat option)
     = ([Sleep 3000], None, Inl AuthTimeoutError)"
proof -
  have f1: "List.find (\<lambda>t. 1500 \<le> t) (poll_times 1000 30000) = Some 2000"
    by (simp add: poll_times_def upt_rec)
  have f2: "List.find (\<lambda>t. False) (poll_times 1000 3000) = None"
    by (simp add: find_None_iff)
  from follower_settles_after_observing
         [where token_at = "\<lambda>t. 1500 \<le> t" and interval = 1000 and timeout = 30000
            and wait = "0::nat" and srv = "None :: nat option"]
       follower_settles_after_observing
         [where token_at = "\<lambda>t. False" and interval = 1000 and timeout = 3000
            and wait = "0::nat" and srv = "None :: nat option"]
  show ?thesis by (auto simp: f1 f2)
qed

end
